theory Spec2Isabelle
  imports Complex_Main "HOL-Library.Sublist"
begin

section \<open>JavaScript values the harness handles\<close>

text \<open>
  The scripts \<^verbatim>\<open>tests/health-check.js\<close>, \<^verbatim>\<open>tests/ci-health-check.js\<close>,
  \<^verbatim>\<open>tests/integration/run-tests.js\<close> and \<^verbatim>\<open>run-tests.js\<close> are embedded here function by
  function. A thrown value is an error object of which the code only ever reads
  \<^verbatim>\<open>.message\<close>; an \<^verbatim>\<open>async\<close> function that may reject returns a sum with the error on
  the left.
\<close>

datatype js_error = Error string | TypeError string | SyntaxError string

fun message :: "js_error \<Rightarrow> string" where
  "message (Error m) = m"
| "message (TypeError m) = m"
| "message (SyntaxError m) = m"

text \<open>
  What \<^verbatim>\<open>JSON.parse\<close> yields. An object is the list of its own properties, each name
  once; a number is given by its value, of which the code only asks whether it is zero.
\<close>

datatype json =
    JNull
  | JBool bool
  | JNumber rat
  | JString string
  | JArray "json list"
  | JObject "(string \<times> json) list"

text \<open>
  Truthiness of an expression whose value is a parsed JSON value or \<^verbatim>\<open>undefined\<close>
  (\<open>None\<close>), as \<^verbatim>\<open>!data[field]\<close> tests it.
\<close>

fun truthy :: "json option \<Rightarrow> bool" where
  "truthy None = False"
| "truthy (Some JNull) = False"
| "truthy (Some (JBool b)) = b"
| "truthy (Some (JNumber n)) = (n \<noteq> 0)"
| "truthy (Some (JString s)) = (s \<noteq> [])"
| "truthy (Some (JArray xs)) = True"
| "truthy (Some (JObject kvs)) = True"

text \<open>
  Reading a property \<^verbatim>\<open>data[k]\<close> of a parsed value, for the property names of this
  program (\<^verbatim>\<open>status\<close>, \<^verbatim>\<open>environment\<close>, \<^verbatim>\<open>cors_origins\<close>, \<^verbatim>\<open>allowed_hosts\<close>), none of
  which a prototype defines: \<^verbatim>\<open>null\<close> throws a TypeError, an object gives its own
  property or \<^verbatim>\<open>undefined\<close>, every other value gives \<^verbatim>\<open>undefined\<close>.
\<close>

fun get_prop :: "json \<Rightarrow> string \<Rightarrow> js_error + json option" where
  "get_prop JNull k =
     Inl (TypeError (''Cannot read properties of null (reading '' @ [CHR 0x27] @ k @ [CHR 0x27] @ '')''))"
| "get_prop (JObject kvs) k = Inr (map_of kvs k)"
| "get_prop v k = Inr None"

text \<open>Decimal text of an integer, as a template literal prints a status or exit code.\<close>

fun show_nat :: "nat \<Rightarrow> string" where
  "show_nat n =
     (if n < 10 then [''0123456789'' ! n]
      else show_nat (n div 10) @ [''0123456789'' ! (n mod 10)])"

definition show_int :: "int \<Rightarrow> string" where
  "show_int i = (if i < 0 then ''-'' @ show_nat (nat (- i)) else show_nat (nat i))"

section \<open>The runtime the scripts run on\<close>

text \<open>\<^verbatim>\<open>{ statusCode, headers, body }\<close>, the object \<^verbatim>\<open>makeRequest\<close> resolves with.\<close>

record response =
  statusCode :: int
  headers :: "(string \<times> string) list"
  body :: string

text \<open>
  What one call of \<^verbatim>\<open>http.get\<close> or \<^verbatim>\<open>https.get\<close> comes to. The call itself throws when the
  library refuses the URL (\<^verbatim>\<open>http.get\<close> on an \<^verbatim>\<open>https:\<close> URL, either on a malformed one).
  Otherwise, within the caller's time budget and whichever happens first: the response
  arrives (with its body, where the caller collects it), the request emits \<^verbatim>\<open>error\<close>, or
  the budget is spent. A response whose body never ends is not among the outcomes. A
  child process either closes with an exit code (\<^verbatim>\<open>null\<close> when a signal killed it) or
  fails to start.
\<close>

datatype http_event = Responded response | Errored js_error | Silent | Threw js_error

datatype spawn_event = Closed "int option" | SpawnFailed js_error

record spawn_options =
  env :: "(string \<times> string) list"
  cwd :: "string option"

text \<open>
  Node and the operating system, over a world \<open>'w\<close> that holds the two services, the file
  system, the clock and the child processes. Every interaction returns the world after
  it. \<open>JSON_parse\<close> and \<open>String\<close> are the language's own functions; \<open>String\<close> is the
  conversion to text that a template literal applies to a value, which throws for an
  object that cannot be converted. \<^verbatim>\<open>process.cwd()\<close> throws when the directory is gone.
\<close>

record 'w sys =
  http_get :: "string \<Rightarrow> (string \<times> string) list \<Rightarrow> int \<Rightarrow> 'w \<Rightarrow> http_event \<times> 'w"
  https_get :: "string \<Rightarrow> (string \<times> string) list \<Rightarrow> int \<Rightarrow> 'w \<Rightarrow> http_event \<times> 'w"
  spawn :: "string \<Rightarrow> string list \<Rightarrow> spawn_options \<Rightarrow> 'w \<Rightarrow> spawn_event \<times> 'w"
  existsSync :: "string \<Rightarrow> 'w \<Rightarrow> bool"
  path_join :: "string list \<Rightarrow> string"
  process_cwd :: "'w \<Rightarrow> js_error + string"
  process_platform :: "string"
  Date_now :: "'w \<Rightarrow> int"
  setTimeout :: "int \<Rightarrow> 'w \<Rightarrow> 'w"
  JSON_parse :: "string \<Rightarrow> js_error + json"
  String :: "json option \<Rightarrow> js_error + string"

text \<open>
  \<^verbatim>\<open>CONFIG\<close>: each script builds its own at load time from \<^verbatim>\<open>process.env\<close> and exports
  it. \<^verbatim>\<open>process.env.API_URL || default\<close> takes the default for an unset or empty variable.
\<close>

record config =
  API_URL :: string
  WEB_URL :: string
  TIMEOUT :: int
  RETRY_COUNT :: int
  RETRY_DELAY :: int

definition env_or :: "string option \<Rightarrow> string \<Rightarrow> string" where
  "env_or v d = (case v of None \<Rightarrow> d | Some u \<Rightarrow> if u = [] then d else u)"

definition CONFIG_health :: "string option \<Rightarrow> string option \<Rightarrow> config" where
  "CONFIG_health api web =
     \<lparr>API_URL = env_or api ''http://localhost:8000'',
      WEB_URL = env_or web ''http://localhost:3000'',
      TIMEOUT = 10000, RETRY_COUNT = 3, RETRY_DELAY = 2000\<rparr>"

definition CONFIG_ci :: "string option \<Rightarrow> string option \<Rightarrow> config" where
  "CONFIG_ci api web =
     \<lparr>API_URL = env_or api ''http://localhost:8000'',
      WEB_URL = env_or web ''http://localhost:3000'',
      TIMEOUT = 10000, RETRY_COUNT = 3, RETRY_DELAY = 2000\<rparr>"

definition CONFIG_integration :: "string option \<Rightarrow> string option \<Rightarrow> config" where
  "CONFIG_integration api web =
     \<lparr>API_URL = env_or api ''http://localhost:8000'',
      WEB_URL = env_or web ''http://localhost:3000'',
      TIMEOUT = 15000, RETRY_COUNT = 3, RETRY_DELAY = 3000\<rparr>"

definition CONFIG_runner :: "string option \<Rightarrow> string option \<Rightarrow> config" where
  "CONFIG_runner api web =
     \<lparr>API_URL = env_or api ''http://localhost:8000'',
      WEB_URL = env_or web ''http://localhost:3000'',
      TIMEOUT = 30000, RETRY_COUNT = 3, RETRY_DELAY = 5000\<rparr>"

text \<open>
  A test script's process: the world, and the trace of what the retry wrapper did, one
  \<open>Invoked\<close> for each \<^verbatim>\<open>await testFn()\<close> and one \<open>Slept\<close> for each \<^verbatim>\<open>await sleep(ms)\<close>,
  oldest first. Lines written with \<^verbatim>\<open>log\<close> go to standard output, which no function reads
  back; they are not carried.
\<close>

datatype event = is_Invoked: Invoked string | is_Slept: Slept int

record 'w proc =
  world :: 'w
  trace :: "event list"

text \<open>A Test Case: an \<^verbatim>\<open>async\<close> function of no argument, acting on the world.\<close>

type_synonym ('w, 'a) test_fn = "'w \<Rightarrow> (js_error + 'a) \<times> 'w"

definition invoke :: "string \<Rightarrow> ('w, 'a) test_fn \<Rightarrow> 'w proc \<Rightarrow> (js_error + 'a) \<times> 'w proc" where
  "invoke testName testFn s =
     (case testFn (world s) of
        (r, w) \<Rightarrow> (r, s\<lparr>world := w, trace := trace s @ [Invoked testName]\<rparr>))"

definition sleep :: "'w sys \<Rightarrow> int \<Rightarrow> 'w proc \<Rightarrow> 'w proc" where
  "sleep sys ms s = s\<lparr>world := setTimeout sys ms (world s), trace := trace s @ [Slept ms]\<rparr>"

section \<open>The retry wrapper\<close>

text \<open>
  \<^verbatim>\<open>testWithRetry\<close> of \<^verbatim>\<open>health-check.js\<close> and of \<^verbatim>\<open>integration/run-tests.js\<close> (the same
  text): the \<^verbatim>\<open>for\<close> loop from counter \<open>i\<close>. Falling out of the loop returns \<^verbatim>\<open>undefined\<close>.
\<close>

function testWithRetry_from ::
  "'w sys \<Rightarrow> config \<Rightarrow> ('w, 'a) test_fn \<Rightarrow> string \<Rightarrow> int \<Rightarrow> int \<Rightarrow> 'w proc
    \<Rightarrow> (js_error + unit) \<times> 'w proc" where
  "testWithRetry_from sys cfg testFn testName retries i s =
     (if i < retries then
        (case invoke testName testFn s of
           (Inr v, s1) \<Rightarrow> (Inr (), s1)
         | (Inl err, s1) \<Rightarrow>
             if i = retries - 1 then (Inl err, s1)
             else testWithRetry_from sys cfg testFn testName retries (i + 1)
                    (sleep sys (RETRY_DELAY cfg) s1))
      else (Inr (), s))"
  by pat_completeness auto
termination
  by (relation "measure (\<lambda>(sys, cfg, testFn, testName, retries, i, s). nat (retries - i))") auto

declare testWithRetry_from.simps [simp del]

definition testWithRetry ::
  "'w sys \<Rightarrow> config \<Rightarrow> ('w, 'a) test_fn \<Rightarrow> string \<Rightarrow> int \<Rightarrow> 'w proc
    \<Rightarrow> (js_error + unit) \<times> 'w proc" where
  "testWithRetry sys cfg testFn testName retries s =
     testWithRetry_from sys cfg testFn testName retries 0 s"

text \<open>
  \<^verbatim>\<open>testWithRetry\<close> of \<^verbatim>\<open>ci-health-check.js\<close>: it returns \<^verbatim>\<open>true\<close> on success and
  \<^verbatim>\<open>false\<close> after the last failed attempt, and \<^verbatim>\<open>undefined\<close> (\<open>None\<close>) when the loop body
  never runs. It has no \<^verbatim>\<open>throw\<close>.
\<close>

function testWithRetry_ci_from ::
  "'w sys \<Rightarrow> config \<Rightarrow> ('w, 'a) test_fn \<Rightarrow> string \<Rightarrow> int \<Rightarrow> int \<Rightarrow> 'w proc
    \<Rightarrow> (js_error + bool option) \<times> 'w proc" where
  "testWithRetry_ci_from sys cfg testFn testName retries i s =
     (if i < retries then
        (case invoke testName testFn s of
           (Inr v, s1) \<Rightarrow> (Inr (Some True), s1)
         | (Inl err, s1) \<Rightarrow>
             if i = retries - 1 then (Inr (Some False), s1)
             else testWithRetry_ci_from sys cfg testFn testName retries (i + 1)
                    (sleep sys (RETRY_DELAY cfg) s1))
      else (Inr None, s))"
  by pat_completeness auto
termination
  by (relation "measure (\<lambda>(sys, cfg, testFn, testName, retries, i, s). nat (retries - i))") auto

declare testWithRetry_ci_from.simps [simp del]

definition testWithRetry_ci ::
  "'w sys \<Rightarrow> config \<Rightarrow> ('w, 'a) test_fn \<Rightarrow> string \<Rightarrow> int \<Rightarrow> 'w proc
    \<Rightarrow> (js_error + bool option) \<times> 'w proc" where
  "testWithRetry_ci sys cfg testFn testName retries s =
     testWithRetry_ci_from sys cfg testFn testName retries 0 s"

section \<open>Probes and Test Cases\<close>

text \<open>
  \<^verbatim>\<open>makeRequest\<close> of \<^verbatim>\<open>health-check.js\<close>: it takes the \<^verbatim>\<open>https\<close> library for a URL that
  starts with \<^verbatim>\<open>https\<close> and \<^verbatim>\<open>http\<close> otherwise. The promise resolves with the response once
  it has ended, and rejects with the request's error, with a timeout error when
  \<^verbatim>\<open>CONFIG.TIMEOUT\<close> milliseconds pass first, or with what \<^verbatim>\<open>lib.get\<close> threw inside the
  executor. \<open>options\<close> are the request headers.
\<close>

definition makeRequest ::
  "'w sys \<Rightarrow> config \<Rightarrow> string \<Rightarrow> (string \<times> string) list \<Rightarrow> 'w \<Rightarrow> (js_error + response) \<times> 'w" where
  "makeRequest sys cfg url options w =
     (let lib = (if prefix ''https'' url then https_get sys else http_get sys) in
      case lib url options (TIMEOUT cfg) w of
        (Responded res, w1) \<Rightarrow> (Inr res, w1)
      | (Errored err, w1) \<Rightarrow> (Inl err, w1)
      | (Silent, w1) \<Rightarrow>
          (Inl (Error (''Request timeout after '' @ show_int (TIMEOUT cfg) @ ''ms'')), w1)
      | (Threw err, w1) \<Rightarrow> (Inl err, w1))"

text \<open>\<^verbatim>\<open>makeRequest\<close> of \<^verbatim>\<open>integration/run-tests.js\<close>: the same with \<^verbatim>\<open>http.get\<close> always.\<close>

definition makeRequest_integration ::
  "'w sys \<Rightarrow> config \<Rightarrow> string \<Rightarrow> (string \<times> string) list \<Rightarrow> 'w \<Rightarrow> (js_error + response) \<times> 'w" where
  "makeRequest_integration sys cfg url options w =
     (case http_get sys url options (TIMEOUT cfg) w of
        (Responded res, w1) \<Rightarrow> (Inr res, w1)
      | (Errored err, w1) \<Rightarrow> (Inl err, w1)
      | (Silent, w1) \<Rightarrow>
          (Inl (Error (''Request timeout after '' @ show_int (TIMEOUT cfg) @ ''ms'')), w1)
      | (Threw err, w1) \<Rightarrow> (Inl err, w1))"

text \<open>\<^verbatim>\<open>makeRequest(url, timeout = CONFIG.TIMEOUT)\<close> of \<^verbatim>\<open>ci-health-check.js\<close>.\<close>

definition makeRequest_ci ::
  "'w sys \<Rightarrow> string \<Rightarrow> int \<Rightarrow> 'w \<Rightarrow> (js_error + response) \<times> 'w" where
  "makeRequest_ci sys url timeout w =
     (case http_get sys url [] timeout w of
        (Responded res, w1) \<Rightarrow> (Inr res, w1)
      | (Errored err, w1) \<Rightarrow> (Inl err, w1)
      | (Silent, w1) \<Rightarrow>
          (Inl (Error (''Request timeout after '' @ show_int timeout @ ''ms'')), w1)
      | (Threw err, w1) \<Rightarrow> (Inl err, w1))"

text \<open>
  \<^verbatim>\<open>testApiHealth\<close> of \<^verbatim>\<open>health-check.js\<close>. \<^verbatim>\<open>data.status !== 'ok'\<close> holds of every value
  but the string \<^verbatim>\<open>ok\<close>, \<^verbatim>\<open>undefined\<close> included.
\<close>

definition testApiHealth :: "'w sys \<Rightarrow> config \<Rightarrow> ('w, json) test_fn" where
  "testApiHealth sys cfg w =
     (case makeRequest sys cfg (API_URL cfg @ ''/health'') [] w of
        (Inl err, w1) \<Rightarrow> (Inl err, w1)
      | (Inr response, w1) \<Rightarrow>
          if statusCode response \<noteq> 200
          then (Inl (Error (''API health check failed with status ''
                            @ show_int (statusCode response))), w1)
          else (case JSON_parse sys (body response) of
                  Inl err \<Rightarrow> (Inl err, w1)
                | Inr data \<Rightarrow>
                    (case get_prop data ''status'' of
                       Inl err \<Rightarrow> (Inl err, w1)
                     | Inr st \<Rightarrow>
                         if st \<noteq> Some (JString ''ok'')
                         then (case String sys st of
                                 Inl err \<Rightarrow> (Inl err, w1)
                               | Inr shown \<Rightarrow>
                                   (Inl (Error (''API health status is not 'ok': '' @ shown)), w1))
                         else (Inr data, w1))))"

text \<open>
  \<^verbatim>\<open>testApiHealth\<close> of \<^verbatim>\<open>ci-health-check.js\<close>. The body of its \<^verbatim>\<open>try\<close> block comes first:
  it parses, and throws when the status is not \<^verbatim>\<open>ok\<close>. The \<^verbatim>\<open>catch (parseError)\<close> around
  it takes every error of the block, writes two lines and falls through to the end of
  the function.
\<close>

definition testApiHealth_ci_try :: "'w sys \<Rightarrow> response \<Rightarrow> js_error + unit" where
  "testApiHealth_ci_try sys response =
     (case JSON_parse sys (body response) of
        Inl err \<Rightarrow> Inl err
      | Inr data \<Rightarrow>
          (case get_prop data ''status'' of
             Inl err \<Rightarrow> Inl err
           | Inr st \<Rightarrow>
               if st \<noteq> Some (JString ''ok'')
               then (case String sys st of
                       Inl err \<Rightarrow> Inl err
                     | Inr shown \<Rightarrow> Inl (Error (''API health status is not 'ok': '' @ shown)))
               else Inr ()))"

definition testApiHealth_ci :: "'w sys \<Rightarrow> config \<Rightarrow> ('w, unit) test_fn" where
  "testApiHealth_ci sys cfg w =
     (case makeRequest_ci sys (API_URL cfg @ ''/health'') (TIMEOUT cfg) w of
        (Inl err, w1) \<Rightarrow> (Inl err, w1)
      | (Inr response, w1) \<Rightarrow>
          if statusCode response \<noteq> 200
          then (Inl (Error (''API health check failed with status ''
                            @ show_int (statusCode response))), w1)
          else (case testApiHealth_ci_try sys response of
                  Inr u \<Rightarrow> (Inr (), w1)
                | Inl parseError \<Rightarrow> (Inr (), w1)))"

text \<open>
  \<^verbatim>\<open>testEnvironmentConfig\<close> of \<^verbatim>\<open>integration/run-tests.js\<close>. First its loop over
  \<^verbatim>\<open>requiredFields\<close>, which throws at the first field whose value is falsy.
\<close>

fun requireFields :: "json \<Rightarrow> string list \<Rightarrow> js_error + unit" where
  "requireFields data [] = Inr ()"
| "requireFields data (field # requiredFields) =
     (case get_prop data field of
        Inl err \<Rightarrow> Inl err
      | Inr v \<Rightarrow>
          if \<not> truthy v then Inl (Error (''Missing configuration field: '' @ field))
          else requireFields data requiredFields)"

text \<open>
  \<^verbatim>\<open>data.cors_origins.includes(CONFIG.WEB_URL)\<close> and \<^verbatim>\<open>data.cors_origins.join(', ')\<close> on a
  truthy parsed value: a string has \<^verbatim>\<open>includes\<close> (substring) but no \<^verbatim>\<open>join\<close>, an array has
  both, and calling either on anything else is a TypeError. \<^verbatim>\<open>join\<close> converts every
  element but \<^verbatim>\<open>null\<close> to text; the joined text only goes to the log, so what is kept of
  it is whether a conversion threw.
\<close>

fun cors_includes :: "json \<Rightarrow> string \<Rightarrow> js_error + bool" where
  "cors_includes (JString s) u = Inr (sublist u s)"
| "cors_includes (JArray xs) u = Inr (JString u \<in> set xs)"
| "cors_includes v u = Inl (TypeError ''data.cors_origins.includes is not a function'')"

fun join_elements :: "(json option \<Rightarrow> js_error + string) \<Rightarrow> json list \<Rightarrow> js_error + unit" where
  "join_elements str [] = Inr ()"
| "join_elements str (x # xs) =
     (if x = JNull then join_elements str xs
      else (case str (Some x) of
              Inl err \<Rightarrow> Inl err
            | Inr shown \<Rightarrow> join_elements str xs))"

fun cors_join :: "'w sys \<Rightarrow> json \<Rightarrow> js_error + unit" where
  "cors_join sys (JArray xs) = join_elements (String sys) xs"
| "cors_join sys v = Inl (TypeError ''data.cors_origins.join is not a function'')"

text \<open>
  The statements of \<^verbatim>\<open>testEnvironmentConfig\<close> after the loop: the test of the CORS
  origins and the three lines written to the log, kept for the errors they can throw.
\<close>

definition logEnvironment :: "'w sys \<Rightarrow> config \<Rightarrow> json \<Rightarrow> js_error + unit" where
  "logEnvironment sys cfg data =
     (case get_prop data ''cors_origins'' of
        Inl err \<Rightarrow> Inl err
      | Inr None \<Rightarrow> Inl (TypeError ''Cannot read properties of undefined (reading 'includes')'')
      | Inr (Some origins) \<Rightarrow>
          (case cors_includes origins (WEB_URL cfg) of
             Inl err \<Rightarrow> Inl err
           | Inr found \<Rightarrow>
               (case get_prop data ''environment'' of
                  Inl err \<Rightarrow> Inl err
                | Inr environment \<Rightarrow>
                    (case String sys environment of
                       Inl err \<Rightarrow> Inl err
                     | Inr shown \<Rightarrow> cors_join sys origins))))"

definition testEnvironmentConfig :: "'w sys \<Rightarrow> config \<Rightarrow> ('w, unit) test_fn" where
  "testEnvironmentConfig sys cfg w =
     (case makeRequest_integration sys cfg (API_URL cfg @ ''/api/status'') [] w of
        (Inl err, w1) \<Rightarrow> (Inl err, w1)
      | (Inr response, w1) \<Rightarrow>
          if statusCode response \<noteq> 200
          then (Inl (Error (''Environment config check failed with status ''
                            @ show_int (statusCode response))), w1)
          else (case JSON_parse sys (body response) of
                  Inl err \<Rightarrow> (Inl err, w1)
                | Inr data \<Rightarrow>
                    (case requireFields data [''environment'', ''cors_origins'', ''allowed_hosts''] of
                       Inl err \<Rightarrow> (Inl err, w1)
                     | Inr u \<Rightarrow> (logEnvironment sys cfg data, w1))))"

section \<open>Suite runners\<close>

text \<open>
  The three test scripts end in \<^verbatim>\<open>process.exit\<close>; their runners return the counters
  and the exit code. \<open>tests\<close> is the array of \<^verbatim>\<open>{ name, fn }\<close> the runner iterates over,
  taken as an argument: the source lists seven entries in \<^verbatim>\<open>health-check.js\<close>, four in
  \<^verbatim>\<open>ci-health-check.js\<close> and eight in \<^verbatim>\<open>integration/run-tests.js\<close>.
\<close>

datatype status = PASSED | FAILED | ERROR

record test_result =
  name :: string
  status :: status
  duration :: "int option"
  error :: "string option"

record summary =
  passedCount :: nat
  failedCount :: nat
  exitCode :: int

record report = summary +
  outcomes :: "test_result list"

text \<open>\<^verbatim>\<open>runHealthChecks\<close> of \<^verbatim>\<open>health-check.js\<close>: its \<^verbatim>\<open>for\<close> loop, then the exit.\<close>

fun runHealthChecks_loop ::
  "'w sys \<Rightarrow> config \<Rightarrow> (string \<times> ('w, 'a) test_fn) list \<Rightarrow> nat \<Rightarrow> nat \<Rightarrow> 'w proc
    \<Rightarrow> (nat \<times> nat) \<times> 'w proc" where
  "runHealthChecks_loop sys cfg [] passed failed s = ((passed, failed), s)"
| "runHealthChecks_loop sys cfg (test # tests) passed failed s =
     (case testWithRetry sys cfg (snd test) (fst test) (RETRY_COUNT cfg) s of
        (Inr u, s1) \<Rightarrow> runHealthChecks_loop sys cfg tests (passed + 1) failed s1
      | (Inl err, s1) \<Rightarrow> runHealthChecks_loop sys cfg tests passed (failed + 1) s1)"

definition runHealthChecks ::
  "'w sys \<Rightarrow> config \<Rightarrow> (string \<times> ('w, 'a) test_fn) list \<Rightarrow> 'w proc \<Rightarrow> summary \<times> 'w proc" where
  "runHealthChecks sys cfg tests s =
     (case runHealthChecks_loop sys cfg tests 0 0 s of
        ((passed, failed), s1) \<Rightarrow>
          (\<lparr>passedCount = passed, failedCount = failed,
            exitCode = (if failed > 0 then 1 else 0)\<rparr>, s1))"

text \<open>
  \<^verbatim>\<open>runCIHealthChecks\<close> of \<^verbatim>\<open>ci-health-check.js\<close> counts by the truthiness of what its
  wrapper returns. A rejection would leave the loop and reach the \<^verbatim>\<open>.catch\<close> at the call,
  which exits with 1.
\<close>

fun runCIHealthChecks_loop ::
  "'w sys \<Rightarrow> config \<Rightarrow> (string \<times> ('w, 'a) test_fn) list \<Rightarrow> nat \<Rightarrow> nat \<Rightarrow> 'w proc
    \<Rightarrow> (js_error + nat \<times> nat) \<times> 'w proc" where
  "runCIHealthChecks_loop sys cfg [] passed failed s = (Inr (passed, failed), s)"
| "runCIHealthChecks_loop sys cfg (test # tests) passed failed s =
     (case testWithRetry_ci sys cfg (snd test) (fst test) (RETRY_COUNT cfg) s of
        (Inr success, s1) \<Rightarrow>
          if success = Some True then runCIHealthChecks_loop sys cfg tests (passed + 1) failed s1
          else runCIHealthChecks_loop sys cfg tests passed (failed + 1) s1
      | (Inl err, s1) \<Rightarrow> (Inl err, s1))"

definition runCIHealthChecks ::
  "'w sys \<Rightarrow> config \<Rightarrow> (string \<times> ('w, 'a) test_fn) list \<Rightarrow> 'w proc \<Rightarrow> int \<times> 'w proc" where
  "runCIHealthChecks sys cfg tests s =
     (case runCIHealthChecks_loop sys cfg tests 0 0 s of
        (Inr (passed, failed), s1) \<Rightarrow> (if failed > 0 then 1 else 0, s1)
      | (Inl err, s1) \<Rightarrow> (1, s1))"

text \<open>
  \<^verbatim>\<open>runIntegrationTests\<close> of \<^verbatim>\<open>integration/run-tests.js\<close> also pushes one entry per test
  onto \<^verbatim>\<open>results\<close>.
\<close>

fun runIntegrationTests_loop ::
  "'w sys \<Rightarrow> config \<Rightarrow> (string \<times> ('w, 'a) test_fn) list \<Rightarrow> nat \<Rightarrow> nat \<Rightarrow> test_result list
    \<Rightarrow> 'w proc \<Rightarrow> (nat \<times> nat \<times> test_result list) \<times> 'w proc" where
  "runIntegrationTests_loop sys cfg [] passed failed results s = ((passed, failed, results), s)"
| "runIntegrationTests_loop sys cfg (test # tests) passed failed results s =
     (let testStartTime = Date_now sys (world s) in
      case testWithRetry sys cfg (snd test) (fst test) (RETRY_COUNT cfg) s of
        (Inr u, s1) \<Rightarrow>
          (let testEndTime = Date_now sys (world s1);
               testDuration = testEndTime - testStartTime
           in runIntegrationTests_loop sys cfg tests (passed + 1) failed
                (results @ [\<lparr>name = fst test, status = PASSED,
                              duration = Some testDuration, error = None\<rparr>]) s1)
      | (Inl err, s1) \<Rightarrow>
          runIntegrationTests_loop sys cfg tests passed (failed + 1)
            (results @ [\<lparr>name = fst test, status = FAILED,
                          duration = None, error = Some (message err)\<rparr>]) s1)"

definition runIntegrationTests ::
  "'w sys \<Rightarrow> config \<Rightarrow> (string \<times> ('w, 'a) test_fn) list \<Rightarrow> 'w proc \<Rightarrow> report \<times> 'w proc" where
  "runIntegrationTests sys cfg tests s =
     (case runIntegrationTests_loop sys cfg tests 0 0 [] s of
        ((passed, failed, results), s1) \<Rightarrow>
          (\<lparr>passedCount = passed, failedCount = failed,
            exitCode = (if failed > 0 then 1 else 0), outcomes = results\<rparr>, s1))"

section \<open>The orchestrator \<^verbatim>\<open>run-tests.js\<close>\<close>

text \<open>
  \<^verbatim>\<open>runCommand\<close> spawns a child and resolves with its exit code when that is 0; it rejects
  on any other code and when the child cannot be started. \<open>env\<close> lists the variables set
  on top of \<^verbatim>\<open>process.env\<close>.
\<close>

definition runCommand ::
  "'w sys \<Rightarrow> string \<Rightarrow> string list \<Rightarrow> spawn_options \<Rightarrow> 'w \<Rightarrow> (js_error + int) \<times> 'w" where
  "runCommand sys command args options w =
     (case spawn sys command args options w of
        (Closed code, w1) \<Rightarrow>
          if code = Some 0 then (Inr 0, w1)
          else (Inl (Error (''Command failed with exit code ''
                            @ (case code of None \<Rightarrow> ''null'' | Some c \<Rightarrow> show_int c))), w1)
      | (SpawnFailed err, w1) \<Rightarrow> (Inl err, w1))"

text \<open>
  The five suite functions. Each runs its commands inside \<^verbatim>\<open>try\<close>, returns \<^verbatim>\<open>true\<close> when
  they succeed and \<^verbatim>\<open>false\<close> from the \<^verbatim>\<open>catch\<close>. The first two start the test scripts
  above as child processes. Their names carry \<open>_cmd\<close> where a test script has a function
  of the same name.
\<close>

definition runHealthChecks_cmd :: "'w sys \<Rightarrow> config \<Rightarrow> 'w \<Rightarrow> (js_error + bool) \<times> 'w" where
  "runHealthChecks_cmd sys cfg w =
     (case runCommand sys ''node'' [''tests/health-check.js'']
             \<lparr>env = [(''API_URL'', API_URL cfg), (''WEB_URL'', WEB_URL cfg)], cwd = None\<rparr> w of
        (Inr c, w1) \<Rightarrow> (Inr True, w1)
      | (Inl err, w1) \<Rightarrow> (Inr False, w1))"

definition runIntegrationTests_cmd :: "'w sys \<Rightarrow> config \<Rightarrow> 'w \<Rightarrow> (js_error + bool) \<times> 'w" where
  "runIntegrationTests_cmd sys cfg w =
     (case runCommand sys ''node'' [''tests/integration/run-tests.js'']
             \<lparr>env = [(''API_URL'', API_URL cfg), (''WEB_URL'', WEB_URL cfg)], cwd = None\<rparr> w of
        (Inr c, w1) \<Rightarrow> (Inr True, w1)
      | (Inl err, w1) \<Rightarrow> (Inr False, w1))"

definition runApiTests :: "'w sys \<Rightarrow> config \<Rightarrow> 'w \<Rightarrow> (js_error + bool) \<times> 'w" where
  "runApiTests sys cfg w =
     (let pythonCommand = (if process_platform sys = ''win32'' then ''python'' else ''python3'') in
      case process_cwd sys w of
        Inl err \<Rightarrow> (Inr False, w)
      | Inr dir \<Rightarrow>
          (case runCommand sys pythonCommand [''-m'', ''pytest'', ''tests/api/'', ''-v'']
                  \<lparr>env = [(''API_URL'', API_URL cfg)], cwd = Some dir\<rparr> w of
             (Inr c, w1) \<Rightarrow> (Inr True, w1)
           | (Inl err, w1) \<Rightarrow> (Inr False, w1)))"

definition runWebTests :: "'w sys \<Rightarrow> config \<Rightarrow> 'w \<Rightarrow> (js_error + bool) \<times> 'w" where
  "runWebTests sys cfg w =
     (case process_cwd sys w of
        Inl err \<Rightarrow> (Inr False, w)
      | Inr dir \<Rightarrow>
          (let webTestsDir = path_join sys [dir, ''tests'', ''web''] in
           case (if \<not> existsSync sys (path_join sys [webTestsDir, ''node_modules'']) w
                 then runCommand sys ''npm'' [''install'', ''--no-save'']
                        \<lparr>env = [], cwd = Some webTestsDir\<rparr> w
                 else (Inr 0, w)) of
             (Inl err, w1) \<Rightarrow> (Inr False, w1)
           | (Inr c, w1) \<Rightarrow>
               (case runCommand sys ''npm'' [''test'']
                       \<lparr>env = [(''API_URL'', API_URL cfg), (''WEB_URL'', WEB_URL cfg)],
                        cwd = Some webTestsDir\<rparr> w1 of
                  (Inr c2, w2) \<Rightarrow> (Inr True, w2)
                | (Inl err, w2) \<Rightarrow> (Inr False, w2))))"

text \<open>\<^verbatim>\<open>runLinting\<close> runs both linters whatever the first one does, and passes when none failed.\<close>

definition runLinting :: "'w sys \<Rightarrow> config \<Rightarrow> 'w \<Rightarrow> (js_error + bool) \<times> 'w" where
  "runLinting sys cfg w =
     (case runCommand sys ''cd'' [''apps/api && poetry run ruff check .'']
             \<lparr>env = [], cwd = None\<rparr> w of
        (r1, w1) \<Rightarrow>
          (case runCommand sys ''cd'' [''apps/web && npm run lint'']
                  \<lparr>env = [], cwd = None\<rparr> w1 of
             (r2, w2) \<Rightarrow>
               (let lintResults =
                      [(''API (Python)'', if isl r1 then ''failed'' else ''passed''),
                       (''Web (ESLint)'', if isl r2 then ''failed'' else ''passed'')];
                    lintFailed = length (filter (\<lambda>r. snd r = ''failed'') lintResults)
                in (Inr (lintFailed = 0), w2))))"

text \<open>
  \<^verbatim>\<open>checkServices\<close>: one probe per service with a budget of 5000 ms. The executor of
  \<^verbatim>\<open>checkService\<close> calls \<^verbatim>\<open>http.get\<close> with no \<^verbatim>\<open>try\<close> around it and takes \<^verbatim>\<open>resolve\<close> alone:
  a response resolves the promise with \<^verbatim>\<open>res.statusCode === 200\<close>, the error and the
  timeout handlers resolve it with \<^verbatim>\<open>false\<close>, and a throw of \<^verbatim>\<open>http.get\<close> rejects it.
  \<^verbatim>\<open>checkServices\<close> awaits the two probes in turn with no \<^verbatim>\<open>try\<close>, so it rejects with the
  first of them that does, and then the second probe is not made.
\<close>

definition checkService :: "'w sys \<Rightarrow> string \<Rightarrow> string \<Rightarrow> 'w \<Rightarrow> (js_error + bool) \<times> 'w" where
  "checkService sys url label w =
     (case http_get sys url [] 5000 w of
        (Responded res, w1) \<Rightarrow> (Inr (statusCode res = 200), w1)
      | (Errored err, w1) \<Rightarrow> (Inr False, w1)
      | (Silent, w1) \<Rightarrow> (Inr False, w1)
      | (Threw err, w1) \<Rightarrow> (Inl err, w1))"

record services =
  apiHealthy :: bool
  webHealthy :: bool

definition checkServices :: "'w sys \<Rightarrow> config \<Rightarrow> 'w \<Rightarrow> (js_error + services) \<times> 'w" where
  "checkServices sys cfg w =
     (case checkService sys (API_URL cfg @ ''/health'') ''API'' w of
        (Inl err, w1) \<Rightarrow> (Inl err, w1)
      | (Inr api, w1) \<Rightarrow>
          (case checkService sys (WEB_URL cfg) ''Web'' w1 of
             (Inl err, w2) \<Rightarrow> (Inl err, w2)
           | (Inr web, w2) \<Rightarrow> (Inr \<lparr>apiHealthy = api, webHealthy = web\<rparr>, w2)))"

text \<open>
  An entry of \<^verbatim>\<open>results\<close> in \<^verbatim>\<open>runAllTests\<close>, and the \<^verbatim>\<open>for\<close> loop over \<^verbatim>\<open>testSuites\<close>, whose
  entries \<^verbatim>\<open>{ name, fn, required }\<close> are triples here. \<open>runSuite\<close> is the body of the loop:
  the \<^verbatim>\<open>try\<close> pushes \<^verbatim>\<open>PASSED\<close> or \<^verbatim>\<open>FAILED\<close> by the truthiness of what the suite function
  returned, the \<^verbatim>\<open>catch\<close> pushes \<^verbatim>\<open>ERROR\<close>.
\<close>

record suite_result = test_result +
  required :: bool

type_synonym 'w suite = "string \<times> ('w \<Rightarrow> (js_error + bool) \<times> 'w) \<times> bool"

definition runSuite :: "'w sys \<Rightarrow> 'w suite \<Rightarrow> 'w \<Rightarrow> suite_result \<times> 'w" where
  "runSuite sys suite w =
     (let suiteStartTime = Date_now sys w in
      case fst (snd suite) w of
        (Inr passed, w1) \<Rightarrow>
          (let suiteEndTime = Date_now sys w1;
               suiteDuration = suiteEndTime - suiteStartTime
           in (\<lparr>name = fst suite, status = (if passed then PASSED else FAILED),
                duration = Some suiteDuration, error = None,
                required = snd (snd suite)\<rparr>, w1))
      | (Inl err, w1) \<Rightarrow>
          (\<lparr>name = fst suite, status = ERROR,
            duration = None, error = Some (message err),
            required = snd (snd suite)\<rparr>, w1))"

fun runSuites :: "'w sys \<Rightarrow> 'w suite list \<Rightarrow> suite_result list \<Rightarrow> 'w \<Rightarrow> suite_result list \<times> 'w" where
  "runSuites sys [] results w = (results, w)"
| "runSuites sys (suite # suites) results w =
     (case runSuite sys suite w of
        (result, w1) \<Rightarrow> runSuites sys suites (results @ [result]) w1)"

text \<open>The \<^verbatim>\<open>results.forEach\<close> of the summary: the three counters after the entries.\<close>

fun tally :: "suite_result list \<Rightarrow> nat \<Rightarrow> nat \<Rightarrow> nat \<Rightarrow> nat \<times> nat \<times> nat" where
  "tally [] totalPassed totalFailed requiredFailed = (totalPassed, totalFailed, requiredFailed)"
| "tally (result # results) totalPassed totalFailed requiredFailed =
     (if status result = PASSED
      then tally results (totalPassed + 1) totalFailed requiredFailed
      else tally results totalPassed (totalFailed + 1)
             (if required result then requiredFailed + 1 else requiredFailed))"

definition testSuites :: "'w sys \<Rightarrow> config \<Rightarrow> 'w suite list" where
  "testSuites sys cfg =
     [(''Health Checks'', runHealthChecks_cmd sys cfg, True),
      (''Integration Tests'', runIntegrationTests_cmd sys cfg, True),
      (''API Tests'', runApiTests sys cfg, False),
      (''Web Tests'', runWebTests sys cfg, False),
      (''Linting'', runLinting sys cfg, False)]"

text \<open>
  What \<^verbatim>\<open>runAllTests\<close> comes to when it reaches its end: the code it gives to
  \<^verbatim>\<open>process.exit\<close>, with the \<^verbatim>\<open>results\<close> the code was computed from and the pair
  \<^verbatim>\<open>checkServices\<close> returned. \<open>runSuitesAndExit\<close> is \<^verbatim>\<open>runAllTests\<close> from the loop on, for
  any list of suites.
\<close>

record verdict =
  code :: int
  suiteResults :: "suite_result list"
  preflight :: services

definition runSuitesAndExit ::
  "'w sys \<Rightarrow> 'w suite list \<Rightarrow> services \<Rightarrow> 'w \<Rightarrow> verdict \<times> 'w" where
  "runSuitesAndExit sys suites sv w =
     (case runSuites sys suites [] w of
        (results, w1) \<Rightarrow>
          (case tally results 0 0 0 of
             (totalPassed, totalFailed, requiredFailed) \<Rightarrow>
               (\<lparr>code = (if requiredFailed > 0 then 1 else if totalFailed > 0 then 0 else 0),
                 suiteResults = results, preflight = sv\<rparr>, w1)))"

text \<open>
  \<^verbatim>\<open>runAllTests\<close> awaits \<^verbatim>\<open>checkServices()\<close> before the loop and outside any \<^verbatim>\<open>try\<close>: when
  that rejects, \<^verbatim>\<open>runAllTests\<close> rejects with the same error and no suite is run.
\<close>

definition runAllTests :: "'w sys \<Rightarrow> config \<Rightarrow> 'w \<Rightarrow> (js_error + verdict) \<times> 'w" where
  "runAllTests sys cfg w =
     (case checkServices sys cfg w of
        (Inl err, w1) \<Rightarrow> (Inl err, w1)
      | (Inr sv, w1) \<Rightarrow>
          (case runSuitesAndExit sys (testSuites sys cfg) sv w1 of
             (v, w2) \<Rightarrow> (Inr v, w2)))"

text \<open>
  The last branch of the script, taken when no option selects a single suite:
  \<^verbatim>\<open>runAllTests().catch(...)\<close>, whose handler calls \<^verbatim>\<open>process.exit(1)\<close>. \<open>processExit\<close> is
  the exit code of the process for what \<^verbatim>\<open>runAllTests\<close> came to, and \<open>resultsOf\<close> the
  entries of \<^verbatim>\<open>results\<close> at that point: none when \<^verbatim>\<open>runAllTests\<close> rejected before the loop.
\<close>

definition processExit :: "js_error + verdict \<Rightarrow> int" where
  "processExit r = (case r of Inl err \<Rightarrow> 1 | Inr v \<Rightarrow> code v)"

definition resultsOf :: "js_error + verdict \<Rightarrow> suite_result list" where
  "resultsOf r = (case r of Inl err \<Rightarrow> [] | Inr v \<Rightarrow> suiteResults v)"

section \<open>A scripted world\<close>

text \<open>
  A world for running the functions on concrete inputs: the answers to the successive
  HTTP requests and the outcomes of the successive child processes are listed in advance,
  and the clock advances by the delays slept. Each library throws on a URL of the other
  protocol and on one that has neither. \<open>parse_examples\<close> and \<open>String_examples\<close>
  agree with \<^verbatim>\<open>JSON.parse\<close> and with template-literal conversion on the bodies and values
  the examples use.
\<close>

record script =
  replies :: "http_event list"
  exits :: "spawn_event list"
  clock :: int

definition parse_examples :: "string \<Rightarrow> js_error + json" where
  "parse_examples text =
     (if text = ''{\"status\":\"ok\"}'' then Inr (JObject [(''status'', JString ''ok'')])
      else if text = ''{\"status\":\"degraded\"}'' then Inr (JObject [(''status'', JString ''degraded'')])
      else if text = ''{\"environment\":\"dev\"}'' then Inr (JObject [(''environment'', JString ''dev'')])
      else Inl (SyntaxError ''Unexpected token''))"

definition String_examples :: "json option \<Rightarrow> js_error + string" where
  "String_examples v =
     (case v of
        None \<Rightarrow> Inr ''undefined''
      | Some JNull \<Rightarrow> Inr ''null''
      | Some (JBool b) \<Rightarrow> Inr (if b then ''true'' else ''false'')
      | Some (JString s) \<Rightarrow> Inr s
      | Some other \<Rightarrow> Inr ''[object Object]'')"

definition scripted :: "script sys" where
  "scripted =
     \<lparr>http_get = (\<lambda>url options budget w.
          if prefix ''https:'' url
          then (Threw (TypeError ''Protocol \"https:\" not supported. Expected \"http:\"''), w)
          else if \<not> prefix ''http://'' url then (Threw (TypeError ''Invalid URL''), w)
          else case replies w of [] \<Rightarrow> (Silent, w) | r # rs \<Rightarrow> (r, w\<lparr>replies := rs\<rparr>)),
      https_get = (\<lambda>url options budget w.
          if prefix ''http:'' url
          then (Threw (TypeError ''Protocol \"http:\" not supported. Expected \"https:\"''), w)
          else if \<not> prefix ''https://'' url then (Threw (TypeError ''Invalid URL''), w)
          else case replies w of [] \<Rightarrow> (Silent, w) | r # rs \<Rightarrow> (r, w\<lparr>replies := rs\<rparr>)),
      spawn = (\<lambda>command args options w.
          case exits w of [] \<Rightarrow> (Closed None, w) | e # es \<Rightarrow> (e, w\<lparr>exits := es\<rparr>)),
      existsSync = (\<lambda>p w. True),
      path_join = (\<lambda>parts. concat (map (\<lambda>p. CHR ''/'' # p) parts)),
      process_cwd = (\<lambda>w. Inr ''repo''),
      process_platform = ''linux'',
      Date_now = clock,
      setTimeout = (\<lambda>ms w. w\<lparr>clock := clock w + ms\<rparr>),
      JSON_parse = parse_examples,
      String = String_examples\<rparr>"

definition ok_response :: "string \<Rightarrow> response" where
  "ok_response text = \<lparr>statusCode = 200, headers = [(''content-type'', ''application/json'')], body = text\<rparr>"

definition script_of :: "http_event list \<Rightarrow> spawn_event list \<Rightarrow> script" where
  "script_of rs es = \<lparr>replies = rs, exits = es, clock = 0\<rparr>"

definition start :: "http_event list \<Rightarrow> script proc" where
  "start rs = \<lparr>world = \<lparr>replies = rs, exits = [], clock = 0\<rparr>, trace = []\<rparr>"

text \<open>
  One failed round of the retry loop, for stating what the loop does: an attempt, then
  the delay.
\<close>

definition retry_step :: "'w sys \<Rightarrow> config \<Rightarrow> ('w, 'a) test_fn \<Rightarrow> string \<Rightarrow> 'w proc \<Rightarrow> 'w proc" where
  "retry_step sys cfg testFn testName s =
     sleep sys (RETRY_DELAY cfg) (snd (invoke testName testFn s))"

text \<open>Two Test Cases for examples: one that always throws, one that always returns.\<close>

definition failing :: "('w, unit) test_fn" where
  "failing w = (Inl (Error ''service down''), w)"

definition passing :: "('w, unit) test_fn" where
  "passing w = (Inr (), w)"

section \<open>The retry wrapper: exhausted retries\<close>

text \<open>
  A Test Case fails on every attempt of a run of \<open>N\<close> attempts from \<open>s\<close> when, for each
  \<open>k < N\<close>, it throws in the world reached after \<open>k\<close> failed rounds. Nothing is asked of
  it in any other world.
\<close>

lemma trace_invoke: "trace (snd (invoke n f s)) = trace s @ [Invoked n]"
  by (simp add: invoke_def split: prod.splits)

lemma trace_sleep: "trace (sleep sys d s) = trace s @ [Slept d]"
  by (simp add: sleep_def)

lemma invoke_fails:
  assumes "isl (fst (testFn (world s)))"
  obtains e s1 where "invoke n testFn s = (Inl e, s1)"
  using assms by (cases "testFn (world s)") (auto simp: invoke_def isl_def intro: that)

lemma testWithRetry_from_Inl:
  "i < retries \<Longrightarrow> invoke n testFn s = (Inl e, s1) \<Longrightarrow>
   testWithRetry_from sys cfg testFn n retries i s =
     (if i = retries - 1 then (Inl e, s1)
      else testWithRetry_from sys cfg testFn n retries (i + 1) (sleep sys (RETRY_DELAY cfg) s1))"
  by (subst testWithRetry_from.simps) simp

lemma testWithRetry_from_Inr:
  "i < retries \<Longrightarrow> invoke n testFn s = (Inr v, s1) \<Longrightarrow>
   testWithRetry_from sys cfg testFn n retries i s = (Inr (), s1)"
  by (subst testWithRetry_from.simps) simp

lemma testWithRetry_from_done:
  "\<not> i < retries \<Longrightarrow> testWithRetry_from sys cfg testFn n retries i s = (Inr (), s)"
  by (subst testWithRetry_from.simps) simp

lemma later_attempts_fail:
  assumes "\<forall>k < nat (retries - i). isl (fst (testFn (world ((retry_step sys cfg testFn n ^^ k) s))))"
    and "i + 1 < retries"
  shows "\<forall>k < nat (retries - (i + 1)).
           isl (fst (testFn (world ((retry_step sys cfg testFn n ^^ k) (retry_step sys cfg testFn n s)))))"
proof (intro allI impI)
  fix k assume "k < nat (retries - (i + 1))"
  then have "Suc k < nat (retries - i)" using assms(2) by simp
  with assms(1) have "isl (fst (testFn (world ((retry_step sys cfg testFn n ^^ Suc k) s))))"
    by blast
  then show "isl (fst (testFn (world ((retry_step sys cfg testFn n ^^ k) (retry_step sys cfg testFn n s)))))"
    by (simp add: funpow_swap1)
qed

lemma testWithRetry_from_fails:
  shows "i < retries \<Longrightarrow>
    \<forall>k < nat (retries - i). isl (fst (testFn (world ((retry_step sys cfg testFn n ^^ k) s)))) \<Longrightarrow>
    \<exists>e s'. testWithRetry_from sys cfg testFn n retries i s = (Inl e, s')
      \<and> invoke n testFn ((retry_step sys cfg testFn n ^^ nat (retries - 1 - i)) s) = (Inl e, s')"
proof (induction sys cfg testFn n retries i s rule: testWithRetry_from.induct)
  case (1 sys cfg testFn n retries i s)
  note lt0 = 1(2) and fails = 1(3)
  from fails lt0 have "isl (fst (testFn (world ((retry_step sys cfg testFn n ^^ 0) s))))"
    by (metis zero_less_nat_eq diff_gt_0_iff_gt)
  then have "isl (fst (testFn (world s)))" by simp
  then obtain e s1 where inv: "invoke n testFn s = (Inl e, s1)"
    by (rule invoke_fails)
  show ?case
  proof (cases "i = retries - 1")
    case True
    have "testWithRetry_from sys cfg testFn n retries i s = (Inl e, s1)"
      unfolding testWithRetry_from_Inl [OF lt0 inv] using True by simp
    moreover have "nat (retries - 1 - i) = 0" using True by simp
    ultimately show ?thesis using inv by simp
  next
    case False
    with lt0 have lt: "i + 1 < retries" by simp
    have st: "retry_step sys cfg testFn n s = sleep sys (RETRY_DELAY cfg) s1"
      using inv by (simp add: retry_step_def)
    have later: "\<forall>k < nat (retries - (i + 1)).
        isl (fst (testFn (world ((retry_step sys cfg testFn n ^^ k) (sleep sys (RETRY_DELAY cfg) s1)))))"
      using later_attempts_fail [OF fails lt] st by simp
    from 1(1) [OF lt0 inv [symmetric] refl False lt later]
    obtain e' s' where
      a: "testWithRetry_from sys cfg testFn n retries (i + 1) (sleep sys (RETRY_DELAY cfg) s1) = (Inl e', s')"
      and b: "invoke n testFn ((retry_step sys cfg testFn n ^^ nat (retries - 1 - (i + 1))) (sleep sys (RETRY_DELAY cfg) s1)) = (Inl e', s')"
      by blast
    have n: "nat (retries - 1 - i) = Suc (nat (retries - 1 - (i + 1)))"
      using lt by simp
    have "testWithRetry_from sys cfg testFn n retries i s = (Inl e', s')"
      unfolding testWithRetry_from_Inl [OF lt0 inv] using a False by simp
    moreover have "invoke n testFn ((retry_step sys cfg testFn n ^^ nat (retries - 1 - i)) s) = (Inl e', s')"
      using b st by (simp add: n funpow_swap1)
    ultimately show ?thesis by blast
  qed
qed

lemma testWithRetry_ci_from_Inl:
  "i < retries \<Longrightarrow> invoke n testFn s = (Inl e, s1) \<Longrightarrow>
   testWithRetry_ci_from sys cfg testFn n retries i s =
     (if i = retries - 1 then (Inr (Some False), s1)
      else testWithRetry_ci_from sys cfg testFn n retries (i + 1) (sleep sys (RETRY_DELAY cfg) s1))"
  by (subst testWithRetry_ci_from.simps) simp

lemma testWithRetry_ci_from_fails:
  shows "i < retries \<Longrightarrow>
    \<forall>k < nat (retries - i). isl (fst (testFn (world ((retry_step sys cfg testFn n ^^ k) s)))) \<Longrightarrow>
    testWithRetry_ci_from sys cfg testFn n retries i s =
      (Inr (Some False),
       snd (invoke n testFn ((retry_step sys cfg testFn n ^^ nat (retries - 1 - i)) s)))"
proof (induction sys cfg testFn n retries i s rule: testWithRetry_ci_from.induct)
  case (1 sys cfg testFn n retries i s)
  note lt0 = 1(2) and fails = 1(3)
  from fails lt0 have "isl (fst (testFn (world ((retry_step sys cfg testFn n ^^ 0) s))))"
    by (metis zero_less_nat_eq diff_gt_0_iff_gt)
  then have "isl (fst (testFn (world s)))" by simp
  then obtain e s1 where inv: "invoke n testFn s = (Inl e, s1)"
    by (rule invoke_fails)
  show ?case
  proof (cases "i = retries - 1")
    case True
    have "nat (retries - 1 - i) = 0" using True by simp
    then show ?thesis
      unfolding testWithRetry_ci_from_Inl [OF lt0 inv] using True inv by simp
  next
    case False
    with lt0 have lt: "i + 1 < retries" by simp
    have st: "retry_step sys cfg testFn n s = sleep sys (RETRY_DELAY cfg) s1"
      using inv by (simp add: retry_step_def)
    have later: "\<forall>k < nat (retries - (i + 1)).
        isl (fst (testFn (world ((retry_step sys cfg testFn n ^^ k) (sleep sys (RETRY_DELAY cfg) s1)))))"
      using later_attempts_fail [OF fails lt] st by simp
    have n: "nat (retries - 1 - i) = Suc (nat (retries - 1 - (i + 1)))"
      using lt by simp
    show ?thesis
      unfolding testWithRetry_ci_from_Inl [OF lt0 inv]
      using 1(1) [OF lt0 inv [symmetric] refl False lt later] False st
      by (simp add: n funpow_swap1)
  qed
qed





lemmas retry_run_defs =
  retry_step_def invoke_def sleep_def testApiHealth_def makeRequest_def scripted_def start_def
  CONFIG_health_def ok_response_def parse_examples_def String_examples_def env_or_def Let_def


text \<open>
  C2, as the code has it. For \<open>N \<ge> 1\<close> and a test function that fails on each of the \<open>N\<close>
  attempts of the run, the wrapper makes \<open>N - 1\<close> failed rounds and an \<open>N\<close>-th attempt. In
  \<^verbatim>\<open>health-check.js\<close> and \<^verbatim>\<open>integration/run-tests.js\<close> it then rejects with the error \<open>e\<close>
  of that last attempt, so it does not return normally. In \<^verbatim>\<open>ci-health-check.js\<close> it
  returns \<^verbatim>\<open>false\<close> at that point, in the same final state, and raises nothing.
\<close>

theorem testWithRetry_exhausted:
  assumes "1 \<le> N"
    and "\<forall>k < nat N. isl (fst (testFn (world ((retry_step sys cfg testFn testName ^^ k) s))))"
  shows "\<exists>e s'.
      invoke testName testFn ((retry_step sys cfg testFn testName ^^ nat (N - 1)) s) = (Inl e, s')
    \<and> testWithRetry sys cfg testFn testName N s = (Inl e, s')
    \<and> testWithRetry_ci sys cfg testFn testName N s = (Inr (Some False), s')"
proof -
  from assms have lt: "0 < N" by simp
  have f: "\<forall>k < nat (N - 0). isl (fst (testFn (world ((retry_step sys cfg testFn testName ^^ k) s))))"
    using assms(2) by simp
  from testWithRetry_from_fails [OF lt f]
  obtain e s' where
    r: "testWithRetry sys cfg testFn testName N s = (Inl e, s')" and
    l: "invoke testName testFn ((retry_step sys cfg testFn testName ^^ nat (N - 1)) s) = (Inl e, s')"
    by (auto simp: testWithRetry_def)
  have "testWithRetry_ci sys cfg testFn testName N s = (Inr (Some False), s')"
    using testWithRetry_ci_from_fails [OF lt f] l
    by (simp add: testWithRetry_ci_def)
  with r l show ?thesis by blast
qed

text \<open>The run above: the error raised is the one of the third attempt.\<close>

theorem testWithRetry_exhausted_witness:
  "testWithRetry scripted (CONFIG_health None None)
       (testApiHealth scripted (CONFIG_health None None)) ''API Health'' 3
       (start [Responded \<lparr>statusCode = 503, headers = [], body = []\<rparr>, Silent,
               Errored (Error ''connect ECONNREFUSED''),
               Responded (ok_response ''{\"status\":\"ok\"}'')])
     = (Inl (Error ''connect ECONNREFUSED''),
        \<lparr>world = \<lparr>replies = [Responded (ok_response ''{\"status\":\"ok\"}'')], exits = [],
                   clock = 4000\<rparr>,
         trace = [Invoked ''API Health'', Slept 2000, Invoked ''API Health'', Slept 2000,
                  Invoked ''API Health'']\<rparr>)
   \<and> testWithRetry_ci scripted (CONFIG_health None None)
       (testApiHealth scripted (CONFIG_health None None)) ''API Health'' 3
       (start [Responded \<lparr>statusCode = 503, headers = [], body = []\<rparr>, Silent,
               Errored (Error ''connect ECONNREFUSED''),
               Responded (ok_response ''{\"status\":\"ok\"}'')])
     = (Inr (Some False),
        \<lparr>world = \<lparr>replies = [Responded (ok_response ''{\"status\":\"ok\"}'')], exits = [],
                   clock = 4000\<rparr>,
         trace = [Invoked ''API Health'', Slept 2000, Invoked ''API Health'', Slept 2000,
                  Invoked ''API Health'']\<rparr>)"
proof -
  have f: "\<forall>k < nat 3. isl (fst (testApiHealth scripted (CONFIG_health None None)
      (world ((retry_step scripted (CONFIG_health None None)
                 (testApiHealth scripted (CONFIG_health None None)) ''API Health'' ^^ k)
               (start [Responded \<lparr>statusCode = 503, headers = [], body = []\<rparr>, Silent,
                       Errored (Error ''connect ECONNREFUSED''),
                       Responded (ok_response ''{\"status\":\"ok\"}'')])))))"
    by (simp add: eval_nat_numeral All_less_Suc retry_run_defs)
  have one: "1 \<le> (3::int)" by simp
  from testWithRetry_exhausted [OF one f] obtain e s' where
    a: "invoke ''API Health'' (testApiHealth scripted (CONFIG_health None None))
          ((retry_step scripted (CONFIG_health None None)
              (testApiHealth scripted (CONFIG_health None None)) ''API Health'' ^^ nat (3 - 1))
            (start [Responded \<lparr>statusCode = 503, headers = [], body = []\<rparr>, Silent,
                    Errored (Error ''connect ECONNREFUSED''),
                    Responded (ok_response ''{\"status\":\"ok\"}'')])) = (Inl e, s')"
    and b: "testWithRetry scripted (CONFIG_health None None)
          (testApiHealth scripted (CONFIG_health None None)) ''API Health'' 3
          (start [Responded \<lparr>statusCode = 503, headers = [], body = []\<rparr>, Silent,
                  Errored (Error ''connect ECONNREFUSED''),
                  Responded (ok_response ''{\"status\":\"ok\"}'')]) = (Inl e, s')"
    and c: "testWithRetry_ci scripted (CONFIG_health None None)
          (testApiHealth scripted (CONFIG_health None None)) ''API Health'' 3
          (start [Responded \<lparr>statusCode = 503, headers = [], body = []\<rparr>, Silent,
                  Errored (Error ''connect ECONNREFUSED''),
                  Responded (ok_response ''{\"status\":\"ok\"}'')]) = (Inr (Some False), s')"
    by blast
  have v: "invoke ''API Health'' (testApiHealth scripted (CONFIG_health None None))
          ((retry_step scripted (CONFIG_health None None)
              (testApiHealth scripted (CONFIG_health None None)) ''API Health'' ^^ nat (3 - 1))
            (start [Responded \<lparr>statusCode = 503, headers = [], body = []\<rparr>, Silent,
                    Errored (Error ''connect ECONNREFUSED''),
                    Responded (ok_response ''{\"status\":\"ok\"}'')]))
     = (Inl (Error ''connect ECONNREFUSED''),
        \<lparr>world = \<lparr>replies = [Responded (ok_response ''{\"status\":\"ok\"}'')], exits = [],
                   clock = 4000\<rparr>,
         trace = [Invoked ''API Health'', Slept 2000, Invoked ''API Health'', Slept 2000,
                  Invoked ''API Health'']\<rparr>)"
    by (simp add: eval_nat_numeral retry_run_defs)
  from a v b c show ?thesis by simp
qed

text \<open>
  C2 as stated fails on \<^verbatim>\<open>ci-health-check.js\<close>: with a test function that always throws
  and three attempts, the wrapper of that script returns \<^verbatim>\<open>false\<close> after the third attempt.
\<close>

theorem testWithRetry_ci_returns_false:
  "fst (testWithRetry_ci scripted (CONFIG_ci None None) failing ''API Health'' 3 (start []))
     = Inr (Some False)
   \<and> trace (snd (testWithRetry_ci scripted (CONFIG_ci None None) failing ''API Health'' 3 (start [])))
     = [Invoked ''API Health'', Slept 2000, Invoked ''API Health'', Slept 2000,
        Invoked ''API Health'']"
  by (simp add: testWithRetry_ci_def testWithRetry_ci_from.simps invoke_def sleep_def
        failing_def scripted_def start_def CONFIG_ci_def)

section \<open>The retry wrapper: no attempts\<close>

text \<open>
  C9. With \<open>retries \<le> 0\<close> the loop body of \<^verbatim>\<open>testWithRetry\<close> never runs: the call returns
  normally and leaves the process as it was, so the test function was not invoked and no
  delay was awaited. The runner of \<^verbatim>\<open>health-check.js\<close>, with \<^verbatim>\<open>CONFIG.RETRY_COUNT\<close> at
  such a value, counts every registered Test Case as passed and exits with 0.
\<close>

theorem testWithRetry_no_attempts:
  assumes "retries \<le> 0"
  shows "testWithRetry sys cfg testFn testName retries s = (Inr (), s)
       \<and> runHealthChecks sys (cfg\<lparr>RETRY_COUNT := retries\<rparr>) tests s
           = (\<lparr>passedCount = length tests, failedCount = 0, exitCode = 0\<rparr>, s)"
proof -
  have w: "\<And>c f n t. testWithRetry sys c f n retries t = (Inr (), t)"
    using assms by (simp add: testWithRetry_def testWithRetry_from_done)
  have "runHealthChecks_loop sys (cfg\<lparr>RETRY_COUNT := retries\<rparr>) tests p f s
          = ((p + length tests, f), s)" for p f
    by (induction tests arbitrary: p) (simp_all add: w)
  then show ?thesis by (simp add: runHealthChecks_def w)
qed

theorem testWithRetry_no_attempts_witness:
  "testWithRetry scripted (CONFIG_health None None) failing ''API Health'' 0 (start [])
      = (Inr (), start [])
   \<and> runHealthChecks scripted ((CONFIG_health None None)\<lparr>RETRY_COUNT := 0\<rparr>)
        [(''API Health'', failing), (''Web Frontend'', failing)] (start [])
      = (\<lparr>passedCount = 2, failedCount = 0, exitCode = 0\<rparr>, start [])"
  using testWithRetry_no_attempts [of 0 scripted "CONFIG_health None None" failing "''API Health''" "start []"
      "[(''API Health'', failing), (''Web Frontend'', failing)]"]
  by simp

section \<open>Suite runners: every Test Case is run and counted\<close>

lemma testWithRetry_from_trace:
  "\<exists>new. trace (snd (testWithRetry_from sys cfg testFn n retries i s)) = trace s @ new
        \<and> (i < retries \<longrightarrow> Invoked n \<in> set new)"
proof (induction sys cfg testFn n retries i s rule: testWithRetry_from.induct)
  case (1 sys cfg testFn n retries i s)
  show ?case
  proof (cases "i < retries")
    case False
    then show ?thesis by (simp add: testWithRetry_from_done)
  next
    case lt: True
    obtain r s1 where inv: "invoke n testFn s = (r, s1)" by (cases "invoke n testFn s")
    have t1: "trace s1 = trace s @ [Invoked n]"
      using trace_invoke [of n testFn s] inv by simp
    show ?thesis
    proof (cases r)
      case (Inr v)
      with inv lt t1 show ?thesis by (simp add: testWithRetry_from_Inr)
    next
      case (Inl e)
      show ?thesis
      proof (cases "i = retries - 1")
        case True
        have "testWithRetry_from sys cfg testFn n retries i s = (Inl e, s1)"
          unfolding testWithRetry_from_Inl [OF lt inv [unfolded Inl]] using True by simp
        with t1 show ?thesis using lt by simp
      next
        case False
        from 1 [OF lt inv [unfolded Inl, symmetric] refl False]
        obtain new where
          n: "trace (snd (testWithRetry_from sys cfg testFn n retries (i + 1)
                (sleep sys (RETRY_DELAY cfg) s1))) = trace (sleep sys (RETRY_DELAY cfg) s1) @ new"
          by blast
        have "testWithRetry_from sys cfg testFn n retries i s =
              testWithRetry_from sys cfg testFn n retries (i + 1) (sleep sys (RETRY_DELAY cfg) s1)"
          unfolding testWithRetry_from_Inl [OF lt inv [unfolded Inl]] using False by simp
        with n t1 show ?thesis by (simp add: trace_sleep)
      qed
    qed
  qed
qed

lemma testWithRetry_trace:
  obtains new where
    "trace (snd (testWithRetry sys cfg testFn n retries s)) = trace s @ new"
    "1 \<le> retries \<Longrightarrow> Invoked n \<in> set new"
  using testWithRetry_from_trace [of sys cfg testFn n retries 0 s]
  by (auto simp: testWithRetry_def)

lemma runHealthChecks_loop_sum:
  "fst (fst (runHealthChecks_loop sys cfg tests p f s))
     + snd (fst (runHealthChecks_loop sys cfg tests p f s)) = p + f + length tests"
  by (induction tests arbitrary: p f s) (auto split: prod.splits sum.splits)

lemma runHealthChecks_loop_trace:
  "\<exists>new. trace (snd (runHealthChecks_loop sys cfg tests p f s)) = trace s @ new
        \<and> (1 \<le> RETRY_COUNT cfg \<longrightarrow> (\<forall>t \<in> set tests. Invoked (fst t) \<in> set new))"
proof (induction tests arbitrary: p f s)
  case Nil
  show ?case by simp
next
  case (Cons test tests)
  obtain r s1 where w: "testWithRetry sys cfg (snd test) (fst test) (RETRY_COUNT cfg) s = (r, s1)"
    by (cases "testWithRetry sys cfg (snd test) (fst test) (RETRY_COUNT cfg) s")
  obtain new1 where
    n1: "trace s1 = trace s @ new1" "1 \<le> RETRY_COUNT cfg \<Longrightarrow> Invoked (fst test) \<in> set new1"
    using testWithRetry_trace [of sys cfg "snd test" "fst test" "RETRY_COUNT cfg" s] w
    by (metis snd_conv)
  obtain p' f' where
    step: "runHealthChecks_loop sys cfg (test # tests) p f s = runHealthChecks_loop sys cfg tests p' f' s1"
    using w by (cases r) simp_all
  from Cons [of p' f' s1] obtain new2 where
    n2: "trace (snd (runHealthChecks_loop sys cfg tests p' f' s1)) = trace s1 @ new2"
        "1 \<le> RETRY_COUNT cfg \<longrightarrow> (\<forall>t \<in> set tests. Invoked (fst t) \<in> set new2)"
    by blast
  have "trace (snd (runHealthChecks_loop sys cfg (test # tests) p f s)) = trace s @ (new1 @ new2)"
    using step n1(1) n2(1) by simp
  moreover have "1 \<le> RETRY_COUNT cfg \<longrightarrow>
      (\<forall>t \<in> set (test # tests). Invoked (fst t) \<in> set (new1 @ new2))"
    using n1(2) n2(2) by auto
  ultimately show ?case by blast
qed

lemma runIntegrationTests_loop_sum:
  "fst (fst (runIntegrationTests_loop sys cfg tests p f rs s))
     + fst (snd (fst (runIntegrationTests_loop sys cfg tests p f rs s))) = p + f + length tests"
  by (induction tests arbitrary: p f rs s) (auto simp: Let_def split: prod.splits sum.splits)

lemma runIntegrationTests_loop_names:
  "map name (snd (snd (fst (runIntegrationTests_loop sys cfg tests p f rs s))))
     = map name rs @ map fst tests"
  by (induction tests arbitrary: p f rs s) (auto simp: Let_def split: prod.splits sum.splits)

lemma runIntegrationTests_loop_trace:
  "\<exists>new. trace (snd (runIntegrationTests_loop sys cfg tests p f rs s)) = trace s @ new
        \<and> (1 \<le> RETRY_COUNT cfg \<longrightarrow> (\<forall>t \<in> set tests. Invoked (fst t) \<in> set new))"
proof (induction tests arbitrary: p f rs s)
  case Nil
  show ?case by simp
next
  case (Cons test tests)
  obtain r s1 where w: "testWithRetry sys cfg (snd test) (fst test) (RETRY_COUNT cfg) s = (r, s1)"
    by (cases "testWithRetry sys cfg (snd test) (fst test) (RETRY_COUNT cfg) s")
  obtain new1 where
    n1: "trace s1 = trace s @ new1" "1 \<le> RETRY_COUNT cfg \<Longrightarrow> Invoked (fst test) \<in> set new1"
    using testWithRetry_trace [of sys cfg "snd test" "fst test" "RETRY_COUNT cfg" s] w
    by (metis snd_conv)
  obtain p' f' rs' where
    step: "runIntegrationTests_loop sys cfg (test # tests) p f rs s
             = runIntegrationTests_loop sys cfg tests p' f' rs' s1"
    using w by (cases r) (simp_all add: Let_def)
  from Cons [of p' f' rs' s1] obtain new2 where
    n2: "trace (snd (runIntegrationTests_loop sys cfg tests p' f' rs' s1)) = trace s1 @ new2"
        "1 \<le> RETRY_COUNT cfg \<longrightarrow> (\<forall>t \<in> set tests. Invoked (fst t) \<in> set new2)"
    by blast
  have "trace (snd (runIntegrationTests_loop sys cfg (test # tests) p f rs s)) = trace s @ (new1 @ new2)"
    using step n1(1) n2(1) by simp
  moreover have "1 \<le> RETRY_COUNT cfg \<longrightarrow>
      (\<forall>t \<in> set (test # tests). Invoked (fst t) \<in> set (new1 @ new2))"
    using n1(2) n2(2) by auto
  ultimately show ?case by blast
qed

text \<open>
  C5. After a run of the suite, the passed counter plus the failed counter is the number
  of Test Cases registered, in \<^verbatim>\<open>health-check.js\<close> and in \<^verbatim>\<open>integration/run-tests.js\<close>; the
  latter also holds one \<^verbatim>\<open>results\<close> entry per Test Case.
\<close>

theorem suite_counters_add_up:
  "passedCount (fst (runHealthChecks sys cfg tests s))
     + failedCount (fst (runHealthChecks sys cfg tests s)) = length tests
   \<and> passedCount (fst (runIntegrationTests sys' cfg' tests' s'))
     + failedCount (fst (runIntegrationTests sys' cfg' tests' s')) = length tests'
   \<and> length (outcomes (fst (runIntegrationTests sys' cfg' tests' s'))) = length tests'"
proof -
  have "passedCount (fst (runHealthChecks sys cfg tests s))
     + failedCount (fst (runHealthChecks sys cfg tests s)) = length tests"
    using runHealthChecks_loop_sum [of sys cfg tests 0 0 s]
    by (auto simp add: runHealthChecks_def split: prod.splits)
  moreover have "passedCount (fst (runIntegrationTests sys' cfg' tests' s'))
     + failedCount (fst (runIntegrationTests sys' cfg' tests' s')) = length tests'"
    using runIntegrationTests_loop_sum [of sys' cfg' tests' 0 0 "[]" s']
    by (auto simp add: runIntegrationTests_def split: prod.splits)
  moreover have "length (outcomes (fst (runIntegrationTests sys' cfg' tests' s'))) = length tests'"
    using arg_cong [OF runIntegrationTests_loop_names [of sys' cfg' tests' 0 0 "[]" s'], of length]
    by (auto simp add: runIntegrationTests_def split: prod.splits)
  ultimately show ?thesis by blast
qed

theorem suite_counters_add_up_witness:
  "passedCount (fst (runHealthChecks scripted (CONFIG_health None None)
       [(''A'', failing), (''B'', passing)] (start []))) = 1
   \<and> failedCount (fst (runHealthChecks scripted (CONFIG_health None None)
       [(''A'', failing), (''B'', passing)] (start []))) = 1
   \<and> passedCount (fst (runIntegrationTests scripted (CONFIG_integration None None)
       [(''A'', failing), (''B'', passing), (''C'', failing)] (start []))) = 1
   \<and> failedCount (fst (runIntegrationTests scripted (CONFIG_integration None None)
       [(''A'', failing), (''B'', passing), (''C'', failing)] (start []))) = 2
   \<and> length (outcomes (fst (runIntegrationTests scripted (CONFIG_integration None None)
       [(''A'', failing), (''B'', passing), (''C'', failing)] (start [])))) = 3"
  using suite_counters_add_up [of scripted "CONFIG_health None None"
      "[(''A'', failing), (''B'', passing)]" "start []"
      scripted "CONFIG_integration None None"
      "[(''A'', failing), (''B'', passing), (''C'', failing)]" "start []"]
  by (simp add: runHealthChecks_def runIntegrationTests_def testWithRetry_def
      testWithRetry_from.simps invoke_def sleep_def failing_def passing_def
      CONFIG_health_def CONFIG_integration_def scripted_def start_def)

text \<open>
  C6. The runners do not short-circuit. With at least one attempt configured, whatever
  the Test Cases do, the integration runner records one outcome per registered Test Case,
  in order and under its name, and both runners invoke every registered Test Case during
  the run; so a Test Case that follows a failed one is still invoked and recorded.
\<close>

theorem suite_no_short_circuit:
  assumes "1 \<le> RETRY_COUNT cfg"
  shows "map name (outcomes (fst (runIntegrationTests sys cfg tests s))) = map fst tests
       \<and> (\<exists>new. trace (snd (runIntegrationTests sys cfg tests s)) = trace s @ new
              \<and> (\<forall>t \<in> set tests. Invoked (fst t) \<in> set new))
       \<and> (\<exists>new. trace (snd (runHealthChecks sys cfg tests s)) = trace s @ new
              \<and> (\<forall>t \<in> set tests. Invoked (fst t) \<in> set new))"
proof -
  have "map name (outcomes (fst (runIntegrationTests sys cfg tests s))) = map fst tests"
    using runIntegrationTests_loop_names [of sys cfg tests 0 0 "[]" s]
    by (auto simp add: runIntegrationTests_def split: prod.splits)
  moreover have "\<exists>new. trace (snd (runIntegrationTests sys cfg tests s)) = trace s @ new
              \<and> (\<forall>t \<in> set tests. Invoked (fst t) \<in> set new)"
    using runIntegrationTests_loop_trace [of sys cfg tests 0 0 "[]" s] assms
    by (auto simp add: runIntegrationTests_def split: prod.splits)
  moreover have "\<exists>new. trace (snd (runHealthChecks sys cfg tests s)) = trace s @ new
              \<and> (\<forall>t \<in> set tests. Invoked (fst t) \<in> set new)"
    using runHealthChecks_loop_trace [of sys cfg tests 0 0 s] assms
    by (auto simp add: runHealthChecks_def split: prod.splits)
  ultimately show ?thesis by blast
qed

text \<open>The suite \<open>[A (fails), B (passes)]\<close>: \<open>A\<close> is tried three times, then \<open>B\<close> runs.\<close>

theorem suite_no_short_circuit_witness:
  "outcomes (fst (runIntegrationTests scripted (CONFIG_integration None None)
       [(''A'', failing), (''B'', passing)] (start [])))
     = [\<lparr>name = ''A'', status = FAILED, duration = None, error = Some ''service down''\<rparr>,
        \<lparr>name = ''B'', status = PASSED, duration = Some 0, error = None\<rparr>]
   \<and> trace (snd (runIntegrationTests scripted (CONFIG_integration None None)
       [(''A'', failing), (''B'', passing)] (start [])))
     = [Invoked ''A'', Slept 3000, Invoked ''A'', Slept 3000, Invoked ''A'', Invoked ''B'']
   \<and> trace (snd (runHealthChecks scripted (CONFIG_integration None None)
       [(''A'', failing), (''B'', passing)] (start [])))
     = [Invoked ''A'', Slept 3000, Invoked ''A'', Slept 3000, Invoked ''A'', Invoked ''B'']"
proof -
  have c: "1 \<le> RETRY_COUNT (CONFIG_integration None None)"
    by (simp add: CONFIG_integration_def)
  show ?thesis
    using suite_no_short_circuit [OF c, of scripted "[(''A'', failing), (''B'', passing)]" "start []"]
    by (simp add: runHealthChecks_def runIntegrationTests_def testWithRetry_def
        testWithRetry_from.simps invoke_def sleep_def failing_def passing_def
        CONFIG_integration_def scripted_def start_def)
qed

section \<open>Test Cases\<close>

text \<open>
  C7. When \<^verbatim>\<open>GET /api/status\<close> answers 200 with a body that parses to
  \<^verbatim>\<open>{"environment":"dev"}\<close>, \<^verbatim>\<open>testEnvironmentConfig\<close> throws the error whose message names
  \<^verbatim>\<open>cors_origins\<close>, the first of the required fields that is missing.
\<close>

theorem testEnvironmentConfig_missing_field:
  assumes "http_get sys (API_URL cfg @ ''/api/status'') [] (TIMEOUT cfg) w = (Responded res, w1)"
    and "statusCode res = 200"
    and "JSON_parse sys (body res) = Inr (JObject [(''environment'', JString ''dev'')])"
  shows "testEnvironmentConfig sys cfg w
           = (Inl (Error ''Missing configuration field: cors_origins''), w1)"
  using assms by (simp add: testEnvironmentConfig_def makeRequest_integration_def)

theorem testEnvironmentConfig_missing_field_witness:
  "testEnvironmentConfig scripted (CONFIG_integration None None)
      \<lparr>replies = [Responded (ok_response ''{\"environment\":\"dev\"}'')], exits = [], clock = 0\<rparr>
     = (Inl (Error ''Missing configuration field: cors_origins''),
        \<lparr>replies = [], exits = [], clock = 0\<rparr>)"
  using testEnvironmentConfig_missing_field [of scripted "CONFIG_integration None None"
      "\<lparr>replies = [Responded (ok_response ''{\"environment\":\"dev\"}'')], exits = [], clock = 0\<rparr>"
      "ok_response ''{\"environment\":\"dev\"}''" "\<lparr>replies = [], exits = [], clock = 0\<rparr>"]
  by (simp add: scripted_def ok_response_def parse_examples_def CONFIG_integration_def env_or_def)

text \<open>
  C3. A 200 response whose body is \<^verbatim>\<open>{"status":"degraded"}\<close>: \<^verbatim>\<open>testApiHealth\<close> of
  \<^verbatim>\<open>health-check.js\<close> throws, and \<^verbatim>\<open>testApiHealth\<close> of \<^verbatim>\<open>ci-health-check.js\<close> returns
  normally, because its own \<^verbatim>\<open>catch\<close> takes the error thrown for the status; the CI suite
  with that Test Case then exits with 0.
\<close>

theorem testApiHealth_ci_swallows_status:
  "testApiHealth scripted (CONFIG_health None None)
      \<lparr>replies = [Responded (ok_response ''{\"status\":\"degraded\"}'')], exits = [], clock = 0\<rparr>
     = (Inl (Error ''API health status is not 'ok': degraded''),
        \<lparr>replies = [], exits = [], clock = 0\<rparr>)
   \<and> testApiHealth_ci scripted (CONFIG_ci None None)
      \<lparr>replies = [Responded (ok_response ''{\"status\":\"degraded\"}'')], exits = [], clock = 0\<rparr>
     = (Inr (), \<lparr>replies = [], exits = [], clock = 0\<rparr>)
   \<and> fst (runCIHealthChecks scripted (CONFIG_ci None None)
       [(''API Health'', testApiHealth_ci scripted (CONFIG_ci None None))]
       (start [Responded (ok_response ''{\"status\":\"degraded\"}'')])) = 0"
  by (simp add: testApiHealth_def testApiHealth_ci_def testApiHealth_ci_try_def makeRequest_def
      makeRequest_ci_def scripted_def ok_response_def parse_examples_def String_examples_def
      CONFIG_health_def CONFIG_ci_def runCIHealthChecks_def testWithRetry_ci_def
      testWithRetry_ci_from.simps invoke_def start_def env_or_def Let_def)

text \<open>
  The same in general: on a 200 response \<^verbatim>\<open>health-check.js\<close> throws whenever the status
  read from the parsed body is not the string \<^verbatim>\<open>ok\<close>, and \<^verbatim>\<open>ci-health-check.js\<close> never
  throws.
\<close>

lemma testApiHealth_raises:
  assumes "(if prefix ''https'' (API_URL cfg @ ''/health'') then https_get sys else http_get sys)
             (API_URL cfg @ ''/health'') [] (TIMEOUT cfg) w = (Responded res, w1)"
    and "statusCode res = 200"
    and "JSON_parse sys (body res) = Inr data"
    and "get_prop data ''status'' \<noteq> Inr (Some (JString ''ok''))"
  shows "isl (fst (testApiHealth sys cfg w))"
  using assms by (auto simp add: testApiHealth_def makeRequest_def Let_def split: sum.splits)

lemma testApiHealth_ci_never_raises_on_200:
  assumes "http_get sys (API_URL cfg @ ''/health'') [] (TIMEOUT cfg) w = (Responded res, w1)"
    and "statusCode res = 200"
  shows "testApiHealth_ci sys cfg w = (Inr (), w1)"
  using assms by (auto simp add: testApiHealth_ci_def makeRequest_ci_def split: sum.splits)

section \<open>The orchestrator: the pre-flight check\<close>

lemma checkService_cases:
  "http_get sys url [] 5000 w = (e, w1) \<Longrightarrow>
   checkService sys url label w =
     (case e of
        Threw err \<Rightarrow> (Inl err, w1)
      | _ \<Rightarrow> (Inr (\<exists>res. e = Responded res \<and> statusCode res = 200), w1))"
  by (cases e) (simp_all add: checkService_def)

text \<open>
  C10, as the code has it. Let \<open>e1\<close> be what the probe of \<^verbatim>\<open>API_URL/health\<close> comes to and
  \<open>e2\<close> what the probe of \<^verbatim>\<open>WEB_URL\<close>, made next, comes to. For every combination of
  responses, connection errors and timeouts \<^verbatim>\<open>checkServices\<close> resolves with two booleans,
  each true exactly when its probe was answered with status 200. It is not total: when
  \<^verbatim>\<open>http.get\<close> throws on the first URL it rejects with that error, and so it does when
  \<^verbatim>\<open>http.get\<close> throws on the second.
\<close>

theorem checkServices_outcome:
  assumes "http_get sys (API_URL cfg @ ''/health'') [] 5000 w = (e1, w1)"
    and "http_get sys (WEB_URL cfg) [] 5000 w1 = (e2, w2)"
  shows "checkServices sys cfg w =
     (case e1 of
        Threw err \<Rightarrow> (Inl err, w1)
      | _ \<Rightarrow>
          (case e2 of
             Threw err \<Rightarrow> (Inl err, w2)
           | _ \<Rightarrow>
               (Inr \<lparr>apiHealthy = (\<exists>res. e1 = Responded res \<and> statusCode res = 200),
                     webHealthy = (\<exists>res. e2 = Responded res \<and> statusCode res = 200)\<rparr>, w2)))"
  unfolding checkServices_def checkService_cases [OF assms(1)]
  by (cases e1; cases e2) (simp_all add: checkService_cases [OF assms(2)])

text \<open>
  A 200 and a 503; a refused connection and a timeout; and a \<^verbatim>\<open>WEB_URL\<close> that is no URL.
\<close>

theorem checkServices_outcome_witness:
  "checkServices scripted (CONFIG_runner None None)
      (script_of [Responded (ok_response ''{\"status\":\"ok\"}''),
                  Responded \<lparr>statusCode = 503, headers = [], body = []\<rparr>] [])
     = (Inr \<lparr>apiHealthy = True, webHealthy = False\<rparr>, script_of [] [])
   \<and> checkServices scripted (CONFIG_runner None None)
      (script_of [Errored (Error ''connect ECONNREFUSED''), Silent] [])
     = (Inr \<lparr>apiHealthy = False, webHealthy = False\<rparr>, script_of [] [])
   \<and> checkServices scripted (CONFIG_runner None (Some ''localhost''))
      (script_of [Responded (ok_response ''{\"status\":\"ok\"}'')] [])
     = (Inl (TypeError ''Invalid URL''), script_of [] [])"
proof -
  have a1: "http_get scripted (API_URL (CONFIG_runner None None) @ ''/health'') [] 5000
      (script_of [Responded (ok_response ''{\"status\":\"ok\"}''),
                  Responded \<lparr>statusCode = 503, headers = [], body = []\<rparr>] [])
     = (Responded (ok_response ''{\"status\":\"ok\"}''),
        script_of [Responded \<lparr>statusCode = 503, headers = [], body = []\<rparr>] [])"
    by (simp add: scripted_def script_of_def CONFIG_runner_def env_or_def)
  have a2: "http_get scripted (WEB_URL (CONFIG_runner None None)) [] 5000
      (script_of [Responded \<lparr>statusCode = 503, headers = [], body = []\<rparr>] [])
     = (Responded \<lparr>statusCode = 503, headers = [], body = []\<rparr>, script_of [] [])"
    by (simp add: scripted_def script_of_def CONFIG_runner_def env_or_def)
  have b1: "http_get scripted (API_URL (CONFIG_runner None None) @ ''/health'') [] 5000
      (script_of [Errored (Error ''connect ECONNREFUSED''), Silent] [])
     = (Errored (Error ''connect ECONNREFUSED''), script_of [Silent] [])"
    by (simp add: scripted_def script_of_def CONFIG_runner_def env_or_def)
  have b2: "http_get scripted (WEB_URL (CONFIG_runner None None)) [] 5000 (script_of [Silent] [])
     = (Silent, script_of [] [])"
    by (simp add: scripted_def script_of_def CONFIG_runner_def env_or_def)
  have c1: "http_get scripted (API_URL (CONFIG_runner None (Some ''localhost'')) @ ''/health'') [] 5000
      (script_of [Responded (ok_response ''{\"status\":\"ok\"}'')] [])
     = (Responded (ok_response ''{\"status\":\"ok\"}''), script_of [] [])"
    by (simp add: scripted_def script_of_def CONFIG_runner_def env_or_def)
  have c2: "http_get scripted (WEB_URL (CONFIG_runner None (Some ''localhost''))) [] 5000
      (script_of [] [])
     = (Threw (TypeError ''Invalid URL''), script_of [] [])"
    by (simp add: scripted_def script_of_def CONFIG_runner_def env_or_def)
  show ?thesis
    using checkServices_outcome [OF a1 a2] checkServices_outcome [OF b1 b2]
      checkServices_outcome [OF c1 c2]
    by (simp add: ok_response_def)
qed

text \<open>
  C10 as stated fails: with \<^verbatim>\<open>API_URL=https://api.example.com\<close>, \<^verbatim>\<open>http.get\<close> throws inside
  the executor and \<^verbatim>\<open>checkServices\<close> rejects, whatever the services would answer.
\<close>

theorem checkServices_rejects_https:
  "fst (checkServices scripted (CONFIG_runner (Some ''https://api.example.com'') None)
      (script_of [Responded (ok_response ''{\"status\":\"ok\"}''),
                  Responded (ok_response ''<html>'')] []))
     = Inl (TypeError ''Protocol \"https:\" not supported. Expected \"http:\"'')"
  by (simp add: checkServices_def checkService_def scripted_def script_of_def CONFIG_runner_def
      env_or_def)

section \<open>The orchestrator: the exit code\<close>

lemma tally_counts:
  "tally rs p f r =
     (p + length (filter (\<lambda>x. status x = PASSED) rs),
      f + length (filter (\<lambda>x. status x \<noteq> PASSED) rs),
      r + length (filter (\<lambda>x. required x \<and> status x \<noteq> PASSED) rs))"
  by (induction rs arbitrary: p f r) simp_all

lemma runSuites_acc:
  "runSuites sys suites acc w =
     (acc @ fst (runSuites sys suites [] w), snd (runSuites sys suites [] w))"
proof (induction suites arbitrary: acc w)
  case Nil
  show ?case by simp
next
  case (Cons su suites)
  obtain r w1 where b: "runSuite sys su w = (r, w1)" by (cases "runSuite sys su w")
  show ?case
    using Cons [of "acc @ [r]" w1] Cons [of "[r]" w1] b by simp
qed

lemma runSuites_Cons:
  "fst (runSuites sys (su # suites) [] w) =
     fst (runSuite sys su w) # fst (runSuites sys suites [] (snd (runSuite sys su w)))"
proof -
  obtain r w1 where b: "runSuite sys su w = (r, w1)" by (cases "runSuite sys su w")
  show ?thesis
    using runSuites_acc [of sys suites "[r]" w1] b by simp
qed

lemma runSuite_fields:
  "name (fst (runSuite sys su w)) = fst su"
  "required (fst (runSuite sys su w)) = snd (snd su)"
  "(status (fst (runSuite sys su w)) = PASSED) = (fst (fst (snd su) w) = Inr True)"
  "snd (runSuite sys su w) = snd (fst (snd su) w)"
  by (auto simp add: runSuite_def Let_def split: prod.splits sum.splits)

lemma runSuites_names:
  "map name (fst (runSuites sys suites [] w)) = map fst suites"
  "map required (fst (runSuites sys suites [] w)) = map (\<lambda>su. snd (snd su)) suites"
  by (induction suites arbitrary: w)
     (simp_all add: runSuites_Cons runSuite_fields del: runSuites.simps(2))

lemma runSuitesAndExit_results:
  "suiteResults (fst (runSuitesAndExit sys suites sv w)) = fst (runSuites sys suites [] w)"
  "preflight (fst (runSuitesAndExit sys suites sv w)) = sv"
  by (simp_all add: runSuitesAndExit_def split: prod.splits)

lemma runSuitesAndExit_code:
  "code (fst (runSuitesAndExit sys suites sv w)) =
     (if filter (\<lambda>x. required x \<and> status x \<noteq> PASSED) (fst (runSuites sys suites [] w)) = []
      then 0 else 1)"
  by (simp add: runSuitesAndExit_def tally_counts split: prod.splits)

lemma required_failed_zip:
  "(filter (\<lambda>x. required x \<and> status x \<noteq> PASSED) rs = []) =
     (filter (\<lambda>p. snd p \<and> fst p \<noteq> PASSED) (zip (map status rs) (map required rs)) = [])"
  by (induction rs) simp_all

lemma runAllTests_rejected:
  "isl (fst (checkServices sys cfg w)) \<Longrightarrow>
   isl (fst (runAllTests sys cfg w))
   \<and> processExit (fst (runAllTests sys cfg w)) = 1
   \<and> resultsOf (fst (runAllTests sys cfg w)) = []"
  by (cases "checkServices sys cfg w")
     (auto simp add: runAllTests_def processExit_def resultsOf_def isl_def)

lemma runAllTests_resolved:
  "\<not> isl (fst (checkServices sys cfg w)) \<Longrightarrow>
   \<not> isl (fst (runAllTests sys cfg w))
   \<and> resultsOf (fst (runAllTests sys cfg w))
       = fst (runSuites sys (testSuites sys cfg) [] (snd (checkServices sys cfg w)))
   \<and> processExit (fst (runAllTests sys cfg w))
       = (if filter (\<lambda>x. required x \<and> status x \<noteq> PASSED)
               (fst (runSuites sys (testSuites sys cfg) [] (snd (checkServices sys cfg w)))) = []
          then 0 else 1)"
proof -
  assume "\<not> isl (fst (checkServices sys cfg w))"
  then obtain sv where "fst (checkServices sys cfg w) = Inr sv"
    by (cases "fst (checkServices sys cfg w)") simp_all
  then obtain w1 where c: "checkServices sys cfg w = (Inr sv, w1)"
    by (cases "checkServices sys cfg w") simp
  obtain v w2 where r: "runSuitesAndExit sys (testSuites sys cfg) sv w1 = (v, w2)"
    by (cases "runSuitesAndExit sys (testSuites sys cfg) sv w1")
  have "suiteResults v = fst (runSuites sys (testSuites sys cfg) [] w1)"
    using runSuitesAndExit_results(1) [of sys "testSuites sys cfg" sv w1] r by simp
  moreover have "code v = (if filter (\<lambda>x. required x \<and> status x \<noteq> PASSED)
               (fst (runSuites sys (testSuites sys cfg) [] w1)) = [] then 0 else 1)"
    using runSuitesAndExit_code [of sys "testSuites sys cfg" sv w1] r by simp
  ultimately show ?thesis
    using c r by (simp add: runAllTests_def processExit_def resultsOf_def)
qed


lemmas run_defs =
  runAllTests_def runSuitesAndExit_def checkServices_def checkService_def testSuites_def
  runSuite_def runHealthChecks_cmd_def runIntegrationTests_cmd_def runApiTests_def
  runWebTests_def runLinting_def runCommand_def scripted_def script_of_def CONFIG_runner_def
  ok_response_def processExit_def resultsOf_def env_or_def Let_def



text \<open>
  C8. Two runs of \<^verbatim>\<open>runAllTests\<close>, in any two worlds, whose suites end with the same
  statuses exit with the same code, whatever \<^verbatim>\<open>checkServices\<close> found; and from the loop on,
  the pair \<^verbatim>\<open>checkServices\<close> returned does not enter the exit code. A run whose pre-flight
  check rejected has run no suite, so its suites have the statuses of no run that reached
  the loop; how it exits is the matter of C1.
\<close>

theorem checkServices_does_not_gate:
  assumes "map status (resultsOf (fst (runAllTests sys cfg w)))
         = map status (resultsOf (fst (runAllTests sys' cfg' w')))"
  shows "processExit (fst (runAllTests sys cfg w)) = processExit (fst (runAllTests sys' cfg' w'))
       \<and> code (fst (runSuitesAndExit sys suites sv u)) = code (fst (runSuitesAndExit sys suites sv' u))"
proof -
  have len: "\<not> isl (fst (checkServices sys cfg w)) \<Longrightarrow>
        length (resultsOf (fst (runAllTests sys cfg w))) = 5" for sys :: "'x sys" and cfg w
    using runAllTests_resolved [of sys cfg w]
      arg_cong [OF runSuites_names(1) [of sys "testSuites sys cfg" "snd (checkServices sys cfg w)"], of length]
    by (simp add: testSuites_def)
  have req: "\<not> isl (fst (checkServices sys cfg w)) \<Longrightarrow>
        map required (resultsOf (fst (runAllTests sys cfg w))) = [True, True, False, False, False]"
    for sys :: "'x sys" and cfg w
    using runAllTests_resolved [of sys cfg w]
      runSuites_names(2) [of sys "testSuites sys cfg" "snd (checkServices sys cfg w)"]
    by (simp add: testSuites_def)
  have c: "\<not> isl (fst (checkServices sys cfg w)) \<Longrightarrow>
      processExit (fst (runAllTests sys cfg w)) =
      (if filter (\<lambda>p. snd p \<and> fst p \<noteq> PASSED)
            (zip (map status (resultsOf (fst (runAllTests sys cfg w))))
                 (map required (resultsOf (fst (runAllTests sys cfg w))))) = []
       then 0 else 1)" for sys :: "'x sys" and cfg w
    using runAllTests_resolved [of sys cfg w] by (simp add: required_failed_zip)
  have first: "processExit (fst (runAllTests sys cfg w)) = processExit (fst (runAllTests sys' cfg' w'))"
  proof (cases "isl (fst (checkServices sys cfg w))")
    case True
    from runAllTests_rejected [OF True]
    have e: "resultsOf (fst (runAllTests sys cfg w)) = []"
      and x: "processExit (fst (runAllTests sys cfg w)) = 1"
      by simp_all
    have "isl (fst (checkServices sys' cfg' w'))"
    proof (rule ccontr)
      assume "\<not> isl (fst (checkServices sys' cfg' w'))"
      from len [OF this] assms e show False
        by (metis length_map list.size(3) zero_neq_numeral)
    qed
    from runAllTests_rejected [OF this] x show ?thesis by simp
  next
    case False
    have n: "\<not> isl (fst (checkServices sys' cfg' w'))"
    proof
      assume "isl (fst (checkServices sys' cfg' w'))"
      from runAllTests_rejected [OF this]
      have "resultsOf (fst (runAllTests sys' cfg' w')) = []" by simp
      with len [OF False] assms show False
        by (metis length_map list.size(3) zero_neq_numeral)
    qed
    show ?thesis
      unfolding c [OF False] c [OF n] req [OF False] req [OF n] using assms by simp
  qed
  moreover have "code (fst (runSuitesAndExit sys suites sv u)) = code (fst (runSuitesAndExit sys suites sv' u))"
    by (simp add: runSuitesAndExit_code)
  ultimately show ?thesis by blast
qed

text \<open>Both services reachable in one run and neither in the other, with the same suite outcomes.\<close>

theorem checkServices_does_not_gate_witness:
  "fst (checkServices scripted (CONFIG_runner None None)
       (script_of [Responded (ok_response ''{\"status\":\"ok\"}''), Responded (ok_response ''<html>'')]
          [Closed (Some 0), Closed (Some 0), Closed (Some 1)]))
     = Inr \<lparr>apiHealthy = True, webHealthy = True\<rparr>
   \<and> fst (checkServices scripted (CONFIG_runner None None)
       (script_of [Errored (Error ''connect ECONNREFUSED''), Silent]
          [Closed (Some 0), Closed (Some 0), Closed (Some 1)]))
     = Inr \<lparr>apiHealthy = False, webHealthy = False\<rparr>
   \<and> map status (resultsOf (fst (runAllTests scripted (CONFIG_runner None None)
       (script_of [Errored (Error ''connect ECONNREFUSED''), Silent]
          [Closed (Some 0), Closed (Some 0), Closed (Some 1)]))))
     = [PASSED, PASSED, FAILED, FAILED, FAILED]
   \<and> processExit (fst (runAllTests scripted (CONFIG_runner None None)
       (script_of [Responded (ok_response ''{\"status\":\"ok\"}''), Responded (ok_response ''<html>'')]
          [Closed (Some 0), Closed (Some 0), Closed (Some 1)])))
     = processExit (fst (runAllTests scripted (CONFIG_runner None None)
       (script_of [Errored (Error ''connect ECONNREFUSED''), Silent]
          [Closed (Some 0), Closed (Some 0), Closed (Some 1)])))"
proof -
  have h: "map status (resultsOf (fst (runAllTests scripted (CONFIG_runner None None)
       (script_of [Responded (ok_response ''{\"status\":\"ok\"}''), Responded (ok_response ''<html>'')]
          [Closed (Some 0), Closed (Some 0), Closed (Some 1)]))))
     = map status (resultsOf (fst (runAllTests scripted (CONFIG_runner None None)
       (script_of [Errored (Error ''connect ECONNREFUSED''), Silent]
          [Closed (Some 0), Closed (Some 0), Closed (Some 1)]))))"
    by (simp add: run_defs)
  have p: "fst (checkServices scripted (CONFIG_runner None None)
       (script_of [Responded (ok_response ''{\"status\":\"ok\"}''), Responded (ok_response ''<html>'')]
          [Closed (Some 0), Closed (Some 0), Closed (Some 1)]))
     = Inr \<lparr>apiHealthy = True, webHealthy = True\<rparr>"
    by (simp add: run_defs)
  have q: "fst (checkServices scripted (CONFIG_runner None None)
       (script_of [Errored (Error ''connect ECONNREFUSED''), Silent]
          [Closed (Some 0), Closed (Some 0), Closed (Some 1)]))
     = Inr \<lparr>apiHealthy = False, webHealthy = False\<rparr>"
    by (simp add: run_defs)
  have s: "map status (resultsOf (fst (runAllTests scripted (CONFIG_runner None None)
       (script_of [Errored (Error ''connect ECONNREFUSED''), Silent]
          [Closed (Some 0), Closed (Some 0), Closed (Some 1)]))))
     = [PASSED, PASSED, FAILED, FAILED, FAILED]"
    by (simp add: run_defs)
  from checkServices_does_not_gate [OF h] p q s show ?thesis by blast
qed

end
